theory Spec2Isabelle
  imports Main "HOL-Library.AList"
begin

section \<open>JavaScript values\<close>

text \<open>
  The values the extension handles are JSON data: what \<^verbatim>\<open>res.json()\<close>,
  \<^verbatim>\<open>browser.storage.local\<close> and the options form deliver. An object is an association
  list in property insertion order. Numbers are the integers (viewer counts, numeric ids);
  fractional numbers do not occur in the fields the background script reads.
\<close>

datatype jsval =
    Undefined
  | Null
  | Bool bool
  | Num int
  | Str string
  | Arr "jsval list"
  | Obj "(string \<times> jsval) list"

type_synonym jsobj = "(string \<times> jsval) list"

datatype error = TypeError | NetworkFault | SyntaxError

text \<open>ToBoolean: what \<^verbatim>\<open>!x\<close>, \<^verbatim>\<open>x || y\<close>, \<^verbatim>\<open>x && y\<close> and \<^verbatim>\<open>filter(Boolean)\<close> test.\<close>

fun truthy :: "jsval \<Rightarrow> bool" where
  "truthy Undefined = False"
| "truthy Null = False"
| "truthy (Bool b) = b"
| "truthy (Num n) = (n \<noteq> 0)"
| "truthy (Str s) = (s \<noteq> [])"
| "truthy (Arr xs) = True"
| "truthy (Obj kvs) = True"

text \<open>\<^verbatim>\<open>a || b\<close> on values.\<close>

definition js_or :: "jsval \<Rightarrow> jsval \<Rightarrow> jsval" where
  "js_or a b = (if truthy a then a else b)"

text \<open>\<^verbatim>\<open>o.k\<close> on an object literal or a parsed object: the value, or undefined.\<close>

definition field :: "jsobj \<Rightarrow> string \<Rightarrow> jsval" where
  "field kvs k = (case map_of kvs k of None \<Rightarrow> Undefined | Some v \<Rightarrow> v)"

text \<open>
  \<^verbatim>\<open>v.k\<close> on any value, for the property names the script reads from API data
  (\<^verbatim>\<open>id\<close>, \<^verbatim>\<open>user_id\<close>, \<^verbatim>\<open>data\<close>, \<^verbatim>\<open>stream\<close>, \<^verbatim>\<open>snippet\<close>, ...), none of which is a
  built-in property of a primitive or an array: reading from undefined or null throws a
  TypeError, reading from another non-object gives undefined.
\<close>

fun getProp :: "jsval \<Rightarrow> string \<Rightarrow> error + jsval" where
  "getProp Undefined k = Inl TypeError"
| "getProp Null k = Inl TypeError"
| "getProp (Obj kvs) k = Inr (field kvs k)"
| "getProp v k = Inr Undefined"

text \<open>Sequencing of steps that may throw.\<close>

definition bindE :: "error + 'a \<Rightarrow> ('a \<Rightarrow> error + 'b) \<Rightarrow> error + 'b" where
  "bindE m f = (case m of Inl e \<Rightarrow> Inl e | Inr x \<Rightarrow> f x)"

fun mapE :: "('a \<Rightarrow> error + 'b) \<Rightarrow> 'a list \<Rightarrow> error + 'b list" where
  "mapE f [] = Inr []"
| "mapE f (x # xs) =
     (case f x of
        Inl e \<Rightarrow> Inl e
      | Inr y \<Rightarrow> (case mapE f xs of Inl e \<Rightarrow> Inl e | Inr ys \<Rightarrow> Inr (y # ys)))"

subsection \<open>Numbers as text\<close>

definition digit :: "nat \<Rightarrow> char" where
  "digit d = ''0123456789'' ! d"

fun showNat :: "nat \<Rightarrow> string" where
  "showNat n = (if n < 10 then [digit n] else showNat (n div 10) @ [digit (n mod 10)])"

declare showNat.simps [simp del]

definition showInt :: "int \<Rightarrow> string" where
  "showInt i = (if i < 0 then CHR ''-'' # showNat (nat (- i)) else showNat (nat i))"

text \<open>
  ToString, as a template literal \<^verbatim>\<open>`${v}`\<close> and string concatenation apply it. An array
  joins its elements with commas, undefined and null elements giving the empty string. An
  integer prints as its decimal numeral (JavaScript does so below 1e21; the hours and
  minutes of an uptime stay far below, a time value being at most 8.64e15 ms).
\<close>

fun toStr :: "jsval \<Rightarrow> string"
  and joinStr :: "jsval list \<Rightarrow> string" where
  "toStr Undefined = ''undefined''"
| "toStr Null = ''null''"
| "toStr (Bool b) = (if b then ''true'' else ''false'')"
| "toStr (Num n) = showInt n"
| "toStr (Str s) = s"
| "toStr (Arr xs) = joinStr xs"
| "toStr (Obj kvs) = ''[object Object]''"
| "joinStr [] = []"
| "joinStr (x # xs) =
     (case x of Undefined \<Rightarrow> [] | Null \<Rightarrow> [] | _ \<Rightarrow> toStr x)
       @ (if xs = [] then [] else CHR '','' # joinStr xs)"

section \<open>Uptime computation\<close>

text \<open>
  A JavaScript number in the arithmetic of \<^verbatim>\<open>computeUptime\<close>: an integer count of
  milliseconds, seconds, hours or minutes, or NaN. Every operation on NaN gives NaN,
  \<^verbatim>\<open>Math.max(0, NaN)\<close> included, and every comparison with NaN is false.
\<close>

datatype jsnum = NaN | Fin int

fun num_sub :: "jsnum \<Rightarrow> jsnum \<Rightarrow> jsnum" where
  "num_sub (Fin a) (Fin b) = Fin (a - b)"
| "num_sub a b = NaN"

fun math_max :: "jsnum \<Rightarrow> jsnum \<Rightarrow> jsnum" where
  "math_max (Fin a) (Fin b) = Fin (max a b)"
| "math_max a b = NaN"

text \<open>\<^verbatim>\<open>Math.floor(x / d)\<close> for a positive integer constant \<open>d\<close>.\<close>

fun floor_div :: "jsnum \<Rightarrow> int \<Rightarrow> jsnum" where
  "floor_div (Fin a) d = Fin (a div d)"
| "floor_div NaN d = NaN"

text \<open>\<^verbatim>\<open>x % d\<close>; the script applies it to non-negative \<open>x\<close> only, where it is \<open>mod\<close>.\<close>

fun num_rem :: "jsnum \<Rightarrow> int \<Rightarrow> jsnum" where
  "num_rem (Fin a) d = Fin (a mod d)"
| "num_rem NaN d = NaN"

fun num_gt :: "jsnum \<Rightarrow> int \<Rightarrow> bool" where
  "num_gt (Fin a) b = (a > b)"
| "num_gt NaN b = False"

fun num_show :: "jsnum \<Rightarrow> string" where
  "num_show (Fin a) = showInt a"
| "num_show NaN = ''NaN''"

text \<open>
  The clock and the date parser of the host are parameters: \<open>now\<close> is \<^verbatim>\<open>Date.now()\<close>
  in milliseconds, and \<open>dateParse s\<close> is the time value of \<^verbatim>\<open>new Date(s)\<close> for a
  string \<open>s\<close>, \<open>None\<close> when \<open>s\<close> does not parse (an Invalid Date, whose
  \<^verbatim>\<open>getTime()\<close> is NaN).
\<close>

record clock =
  now :: int
  dateParse :: "string \<Rightarrow> int option"
  toISOString :: "int \<Rightarrow> string"

text \<open>
  \<^verbatim>\<open>new Date(v).getTime()\<close>. The constructor never throws on JSON data: a string is
  parsed, undefined gives an Invalid Date, null, booleans and numbers are taken as a time
  value (beyond 8.64e15 ms an Invalid Date), arrays and objects are parsed through their
  string form.
\<close>

fun getTime :: "clock \<Rightarrow> jsval \<Rightarrow> jsnum" where
  "getTime c (Str s) = (case dateParse c s of None \<Rightarrow> NaN | Some t \<Rightarrow> Fin t)"
| "getTime c Undefined = NaN"
| "getTime c Null = Fin 0"
| "getTime c (Bool b) = Fin (if b then 1 else 0)"
| "getTime c (Num n) = (if \<bar>n\<bar> \<le> 8640000000000000 then Fin n else NaN)"
| "getTime c v = (case dateParse c (toStr v) of None \<Rightarrow> NaN | Some t \<Rightarrow> Fin t)"

text \<open>The body of the \<^verbatim>\<open>try\<close> block of \<^verbatim>\<open>computeUptime\<close>; none of its steps throws.\<close>

definition computeUptime_try :: "clock \<Rightarrow> jsval \<Rightarrow> error + string" where
  "computeUptime_try c startedAtIso =
     (let start = getTime c startedAtIso;
          diff = math_max (Fin 0) (num_sub (Fin (now c)) start);
          s = floor_div diff 1000;
          h = floor_div s 3600;
          m = floor_div (num_rem s 3600) 60
      in if num_gt h 0 then Inr (num_show h @ ''h '' @ num_show m @ ''m'')
         else Inr (num_show m @ ''m''))"

definition computeUptime :: "clock \<Rightarrow> jsval \<Rightarrow> string" where
  "computeUptime c startedAtIso =
     (case computeUptime_try c startedAtIso of Inr r \<Rightarrow> r | Inl e \<Rightarrow> [])"

text \<open>
  A clock for concrete runs: the time is 2024-01-01T02:30:00Z, and the parser knows the
  timestamps of the scenarios below.
\<close>

definition sampleParse :: "string \<Rightarrow> int option" where
  "sampleParse s =
     (if s = ''2024-01-01T00:00:00Z'' then Some 1704067200000
      else if s = ''2024-01-01T02:00:00Z'' then Some 1704074400000
      else if s = ''2024-01-01T03:00:00Z'' then Some 1704078000000
      else None)"

definition sampleClock :: clock where
  "sampleClock = \<lparr> now = 1704076200000, dateParse = sampleParse,
                   toISOString = (\<lambda>t. if t = 1704076200000 then ''2024-01-01T02:30:00.000Z'' else []) \<rparr>"

subsection \<open>The output formats\<close>

definition isDigit :: "char \<Rightarrow> bool" where
  "isDigit ch = (ch \<in> set ''0123456789'')"

definition digitVal :: "char \<Rightarrow> nat" where
  "digitVal ch = of_char ch - 48"

definition readNat :: "string \<Rightarrow> nat" where
  "readNat ds = foldl (\<lambda>a ch. 10 * a + digitVal ch) 0 ds"

text \<open>The regular expression \<^verbatim>\<open>/^\d+m$/\<close>.\<close>

definition matches_m :: "string \<Rightarrow> bool" where
  "matches_m s = (takeWhile isDigit s \<noteq> [] \<and> dropWhile isDigit s = ''m'')"

text \<open>The regular expression \<^verbatim>\<open>/^\d+h \d+m$/\<close>.\<close>

definition matches_h_m :: "string \<Rightarrow> bool" where
  "matches_h_m s =
     (let a = takeWhile isDigit s; r = dropWhile isDigit s;
          b = takeWhile isDigit (drop 2 r); t = dropWhile isDigit (drop 2 r)
      in a \<noteq> [] \<and> take 2 r = ''h '' \<and> b \<noteq> [] \<and> t = ''m'')"

text \<open>The whole minutes an uptime string of either format stands for.\<close>

definition uptimeMinutes :: "string \<Rightarrow> nat option" where
  "uptimeMinutes s =
     (if matches_m s then Some (readNat (takeWhile isDigit s))
      else if matches_h_m s then
        Some (60 * readNat (takeWhile isDigit s)
              + readNat (takeWhile isDigit (drop 2 (dropWhile isDigit s))))
      else None)"

text \<open>One uptime string stands for at most as many minutes as another.\<close>

definition uptimeLe :: "string \<Rightarrow> string \<Rightarrow> bool" where
  "uptimeLe a b =
     (case (uptimeMinutes a, uptimeMinutes b) of
        (Some m, Some m') \<Rightarrow> m \<le> m'
      | _ \<Rightarrow> False)"

text \<open>
  The string \<^verbatim>\<open>computeUptime\<close> builds from an elapsed time of \<open>e\<close> milliseconds:
  \<^verbatim>\<open>h > 0 ? `${h}h ${m}m` : `${m}m`\<close>.
\<close>

definition fmtUptime :: "nat \<Rightarrow> string" where
  "fmtUptime e = (if e div 3600000 > 0
      then showNat (e div 3600000) @ ''h '' @ showNat ((e div 60000) mod 60) @ ''m''
      else showNat ((e div 60000) mod 60) @ ''m'')"


section \<open>Browser state\<close>

text \<open>
  The durable settings record \<^verbatim>\<open>streamtime\<close> maps a platform name to an object of
  fields; both of its writers (\<^verbatim>\<open>mergeSettings\<close>, \<^verbatim>\<open>saveSettings\<close>) store objects
  under the platform names. The live snapshot \<^verbatim>\<open>streamtime_live\<close> is written by
  \<^verbatim>\<open>pollAll\<close> only, always as three lists of entry objects.
\<close>

type_synonym settings = "(string \<times> jsobj) list"

record live_state =
  twitch :: "jsobj list"
  kick :: "jsobj list"
  youtube :: "jsobj list"

record storage_local =
  streamtime :: "settings option"
  streamtime_live :: "live_state option"
  streamtime_last_poll :: "string option"

text \<open>
  A request is kept by its endpoint and parameters instead of its URL text: the Twitch
  streams query (user ids, Client-ID, bearer token), the two refresh-token grants
  (refresh token, client id, client secret), the Kick channels query (broadcaster ids and
  the bearer token when one is sent) and the YouTube live search (channel id, API key).
\<close>

datatype request =
    TwitchStreams "jsval list" jsval jsval
  | TwitchTokenRefresh jsval jsval jsval
  | KickChannels "jsval list" "jsval option"
  | KickTokenRefresh jsval jsval jsval
  | YouTubeSearch jsval jsval

text \<open>A response: its status and its body as JSON, \<open>None\<close> when the body is not JSON.\<close>

datatype response = Response nat "jsval option"

definition ok :: "nat \<Rightarrow> bool" where
  "ok status = (200 \<le> status \<and> status \<le> 299)"

text \<open>
  The script's world: browser storage, the cookie store keyed by (url, name), the remote
  services (the answer to the \<open>n\<close>-th fetch of the run, a network fault when fetch
  rejects), the requests made so far, the clock, the notifications created so far as
  (id, title, message), and the global \<^verbatim>\<open>previousLiveChannels\<close>.
\<close>

record world =
  storage :: storage_local
  cookies :: "(string \<times> string) \<rightharpoonup> string"
  server :: "nat \<Rightarrow> request \<Rightarrow> error + response"
  fetched :: "request list"
  time :: clock
  notifications :: "(string \<times> string \<times> jsval) list"
  previousLiveChannels :: "string set"

definition fetch :: "request \<Rightarrow> world \<Rightarrow> (error + response) \<times> world" where
  "fetch req w = (server w (length (fetched w)) req, w\<lparr>fetched := fetched w @ [req]\<rparr>)"

text \<open>
  \<^verbatim>\<open>browser.cookies.set\<close> with \<^verbatim>\<open>value: value || ''\<close>. The API takes a string value
  and rejects any other.
\<close>

definition setAccessTokenCookie ::
  "string \<Rightarrow> string \<Rightarrow> jsval \<Rightarrow> world \<Rightarrow> (error + unit) \<times> world" where
  "setAccessTokenCookie url name val w =
     (case js_or val (Str []) of
        Str s \<Rightarrow> (Inr (), w\<lparr>cookies := (cookies w)((url, name) \<mapsto> s)\<rparr>)
      | _ \<Rightarrow> (Inl TypeError, w))"

definition getAccessTokenCookie :: "string \<Rightarrow> string \<Rightarrow> world \<Rightarrow> jsval" where
  "getAccessTokenCookie url name w =
     (case cookies w (url, name) of None \<Rightarrow> Str [] | Some v \<Rightarrow> Str v)"


text \<open>\<^verbatim>\<open>st[k] || {}\<close> on the settings record.\<close>

definition platformObj :: "settings \<Rightarrow> string \<Rightarrow> jsobj" where
  "platformObj st k = (case map_of st k of None \<Rightarrow> [] | Some obj \<Rightarrow> obj)"

text \<open>\<^verbatim>\<open>(await browser.storage.local.get('streamtime')).streamtime || {}\<close>\<close>

definition storedSettings :: "world \<Rightarrow> settings" where
  "storedSettings w = (case streamtime (storage w) of None \<Rightarrow> [] | Some r \<Rightarrow> r)"

definition loadSettings :: "world \<Rightarrow> settings" where
  "loadSettings w =
     (let st = storedSettings w;
          st = AList.update ''twitch'' (platformObj st ''twitch'') st;
          st = AList.update ''twitch''
                 (AList.update ''accessToken''
                    (getAccessTokenCookie ''https://api.twitch.tv/'' ''twitch_access_token'' w)
                    (platformObj st ''twitch'')) st;
          st = AList.update ''kick'' (platformObj st ''kick'') st;
          st = AList.update ''kick''
                 (AList.update ''accessToken''
                    (getAccessTokenCookie ''https://kick.com/'' ''kick_access_token'' w)
                    (platformObj st ''kick'')) st
      in st)"

definition nowIso :: "world \<Rightarrow> string" where
  "nowIso w = toISOString (time w) (now (time w))"

section \<open>Settings merge\<close>

text \<open>
  \<^verbatim>\<open>Object.assign(target, source)\<close>: for each key of the source, in order, the
  source's value is set on the target.
\<close>

definition objectAssign :: "jsobj \<Rightarrow> jsobj \<Rightarrow> jsobj" where
  "objectAssign target source =
     foldl (\<lambda>t k. AList.update k (field source k) t) target (map fst source)"

definition mergeStep :: "settings \<Rightarrow> settings \<Rightarrow> string \<Rightarrow> settings" where
  "mergeStep newData merged key =
     AList.update key (objectAssign (platformObj merged key) (platformObj newData key)) merged"

definition mergeSettings :: "settings \<Rightarrow> world \<Rightarrow> settings \<times> world" where
  "mergeSettings newData w =
     (let current = storedSettings w;
          merged = foldl (mergeStep newData) current (map fst newData)
      in (merged, w\<lparr>storage := (storage w)\<lparr>streamtime := Some merged\<rparr>\<rparr>))"

section \<open>Token refresh\<close>

definition nullish :: "jsval \<Rightarrow> bool" where
  "nullish v = (v = Undefined \<or> v = Null)"

text \<open>\<^verbatim>\<open>v.k\<close> for a value known to be neither undefined nor null.\<close>

definition getPropD :: "jsval \<Rightarrow> string \<Rightarrow> jsval" where
  "getPropD v k = (case v of Obj kvs \<Rightarrow> field kvs k | _ \<Rightarrow> Undefined)"

definition refreshTwitchToken_try ::
  "jsval \<Rightarrow> jsval \<Rightarrow> jsval \<Rightarrow> world \<Rightarrow> (error + jsval) \<times> world" where
  "refreshTwitchToken_try clientId clientSecret refreshToken w =
     (case fetch (TwitchTokenRefresh refreshToken clientId clientSecret) w of
        (Inl e, w1) \<Rightarrow> (Inl e, w1)
      | (Inr (Response status body), w1) \<Rightarrow>
          if \<not> ok status then (Inr Null, w1)
          else (case body of
                  None \<Rightarrow> (Inl SyntaxError, w1)
                | Some data \<Rightarrow>
                    (case getProp data ''access_token'' of
                       Inl e \<Rightarrow> (Inl e, w1)
                     | Inr access_token \<Rightarrow>
                         if truthy access_token then
                           (case setAccessTokenCookie ''https://api.twitch.tv/''
                                   ''twitch_access_token'' access_token w1 of
                              (Inl e, w2) \<Rightarrow> (Inl e, w2)
                            | (Inr u, w2) \<Rightarrow>
                                (case mergeSettings
                                        [(''twitch'', [(''refreshToken'',
                                            js_or (getPropD data ''refresh_token'') refreshToken)])]
                                        w2 of
                                   (merged, w3) \<Rightarrow> (Inr access_token, w3)))
                         else (Inr Null, w1))))"

definition refreshTwitchToken :: "jsval \<Rightarrow> jsval \<Rightarrow> jsval \<Rightarrow> world \<Rightarrow> jsval \<times> world" where
  "refreshTwitchToken clientId clientSecret refreshToken w =
     (case refreshTwitchToken_try clientId clientSecret refreshToken w of
        (Inl e, w') \<Rightarrow> (Null, w')
      | (Inr r, w') \<Rightarrow> (r, w'))"

definition isStr :: "jsval \<Rightarrow> bool" where
  "isStr v = (case v of Str s \<Rightarrow> True | _ \<Rightarrow> False)"

definition refreshKickToken_try ::
  "jsval \<Rightarrow> jsval \<Rightarrow> jsval \<Rightarrow> world \<Rightarrow> (error + jsval) \<times> world" where
  "refreshKickToken_try clientId clientSecret refreshToken w =
     (case fetch (KickTokenRefresh refreshToken clientId clientSecret) w of
        (Inl e, w1) \<Rightarrow> (Inl e, w1)
      | (Inr (Response status body), w1) \<Rightarrow>
          if \<not> ok status then (Inr Null, w1)
          else (case body of
                  None \<Rightarrow> (Inl SyntaxError, w1)
                | Some data \<Rightarrow>
                    (case getProp data ''access_token'' of
                       Inl e \<Rightarrow> (Inl e, w1)
                     | Inr access_token \<Rightarrow>
                         if truthy access_token then
                           (case setAccessTokenCookie ''https://kick.com/''
                                   ''kick_access_token'' access_token w1 of
                              (Inl e, w2) \<Rightarrow> (Inl e, w2)
                            | (Inr u, w2) \<Rightarrow>
                                (case mergeSettings
                                        [(''kick'', [(''refreshToken'',
                                            js_or (getPropD data ''refresh_token'') refreshToken)])]
                                        w2 of
                                   (merged, w3) \<Rightarrow> (Inr access_token, w3)))
                         else (Inr Null, w1))))"

text \<open>
  \<^verbatim>\<open>refreshKickToken\<close> logs \<^verbatim>\<open>clientId.substring(0, 8)\<close> and the tail of the refresh
  token before its \<^verbatim>\<open>try\<close> block: a truthy client id or refresh token that is not a
  string makes it throw.
\<close>

definition refreshKickToken ::
  "jsval \<Rightarrow> jsval \<Rightarrow> jsval \<Rightarrow> world \<Rightarrow> (error + jsval) \<times> world" where
  "refreshKickToken clientId clientSecret refreshToken w =
     (if \<not> truthy clientId \<or> \<not> truthy clientSecret \<or> \<not> truthy refreshToken then (Inr Null, w)
      else if \<not> isStr clientId \<or> \<not> isStr refreshToken then (Inl TypeError, w)
      else (case refreshKickToken_try clientId clientSecret refreshToken w of
              (Inl e, w') \<Rightarrow> (Inr Null, w')
            | (Inr r, w') \<Rightarrow> (Inr r, w')))"


section \<open>Platform adapters\<close>

text \<open>\<^verbatim>\<open>arr.map(f)\<close> on a value: only an array has the method.\<close>

definition mapArr :: "(jsval \<Rightarrow> error + 'a) \<Rightarrow> jsval \<Rightarrow> error + 'a list" where
  "mapArr f v = (case v of Arr xs \<Rightarrow> mapE f xs | _ \<Rightarrow> Inl TypeError)"

subsection \<open>Twitch\<close>

text \<open>\<^verbatim>\<open>channels.map(c => c.id || c.user_id || c.broadcaster_id).filter(Boolean)\<close>\<close>

definition twitchId :: "jsval \<Rightarrow> error + jsval" where
  "twitchId c =
     (if nullish c then Inl TypeError
      else Inr (js_or (getPropD c ''id'') (js_or (getPropD c ''user_id'') (getPropD c ''broadcaster_id''))))"

definition twitchIds :: "jsval \<Rightarrow> error + jsval list" where
  "twitchIds channels = bindE (mapArr twitchId channels) (\<lambda>ids. Inr (filter truthy ids))"

definition twitchEntry :: "clock \<Rightarrow> jsval \<Rightarrow> error + jsobj" where
  "twitchEntry c s =
     (if nullish s then Inl TypeError
      else Inr [(''user_id'', getPropD s ''user_id''),
                (''user_login'', getPropD s ''user_login''),
                (''display_name'', getPropD s ''user_name''),
                (''title'', getPropD s ''title''),
                (''game'', getPropD s ''game_name''),
                (''viewers'', getPropD s ''viewer_count''),
                (''started_at'', getPropD s ''started_at''),
                (''uptime'', Str (computeUptime c (getPropD s ''started_at''))),
                (''url'', Str (''https://twitch.tv/'' @ toStr (getPropD s ''user_login'')))])"

text \<open>\<^verbatim>\<open>j.data.map(s => ({...}))\<close>\<close>

definition twitchEntries :: "clock \<Rightarrow> jsval \<Rightarrow> error + jsobj list" where
  "twitchEntries c j = bindE (getProp j ''data'') (mapArr (twitchEntry c))"

text \<open>
  The adapter calls itself after a successful refresh; the first argument bounds the
  depth of these calls, and \<open>None\<close> is a run that has not returned within the bound.
  An \<open>Inl\<close> result is an exception leaving the function: the channel list is mapped
  before the \<^verbatim>\<open>try\<close> block.
\<close>

fun checkTwitch :: "nat \<Rightarrow> jsobj \<Rightarrow> world \<Rightarrow> ((error + jsobj list) \<times> world) option" where
  "checkTwitch 0 twitchSettings w = None"
| "checkTwitch (Suc n) twitchSettings w =
     (if \<not> truthy (field twitchSettings ''clientId'')
         \<or> \<not> truthy (field twitchSettings ''accessToken'')
         \<or> \<not> truthy (field twitchSettings ''channels'') then Some (Inr [], w)
      else
        (case twitchIds (field twitchSettings ''channels'') of
           Inl e \<Rightarrow> Some (Inl e, w)
         | Inr ids \<Rightarrow>
             if ids = [] then Some (Inr [], w)
             else
               (case fetch (TwitchStreams ids (field twitchSettings ''clientId'')
                              (field twitchSettings ''accessToken'')) w of
                  (Inl e, w1) \<Rightarrow> Some (Inr [], w1)
                | (Inr (Response status body), w1) \<Rightarrow>
                    if status = 401 \<or> status = 403 then
                      (case refreshTwitchToken (field twitchSettings ''clientId'')
                              (field twitchSettings ''clientSecret'')
                              (field twitchSettings ''refreshToken'') w1 of
                         (newToken, w2) \<Rightarrow>
                           if truthy newToken then
                             (case checkTwitch n
                                     (AList.update ''accessToken'' newToken twitchSettings) w2 of
                                None \<Rightarrow> None
                              | Some (Inl e, w3) \<Rightarrow> Some (Inr [], w3)
                              | Some (Inr r, w3) \<Rightarrow> Some (Inr r, w3))
                           else Some (Inr [], w2))
                    else if \<not> ok status then Some (Inr [], w1)
                    else
                      (case body of
                         None \<Rightarrow> Some (Inr [], w1)
                       | Some j \<Rightarrow>
                           (case twitchEntries (time w1) j of
                              Inl e \<Rightarrow> Some (Inr [], w1)
                            | Inr entries \<Rightarrow> Some (Inr entries, w1))))))"

subsection \<open>Kick\<close>

text \<open>\<^verbatim>\<open>channels.map(c => c.id || c.broadcaster_user_id).filter(Boolean)\<close>\<close>

definition kickId :: "jsval \<Rightarrow> error + jsval" where
  "kickId c =
     (if nullish c then Inl TypeError
      else Inr (js_or (getPropD c ''id'') (getPropD c ''broadcaster_user_id'')))"

definition kickIds :: "jsval \<Rightarrow> error + jsval list" where
  "kickIds channels = bindE (mapArr kickId channels) (\<lambda>ids. Inr (filter truthy ids))"

text \<open>\<^verbatim>\<open>ch => ch.stream && ch.stream.is_live\<close>\<close>

definition kickIsLive :: "jsval \<Rightarrow> error + bool" where
  "kickIsLive ch =
     (if nullish ch then Inl TypeError
      else Inr (truthy (getPropD ch ''stream'')
                \<and> truthy (getPropD (getPropD ch ''stream'') ''is_live'')))"

text \<open>\<^verbatim>\<open>v?.k\<close>\<close>

definition optChain :: "jsval \<Rightarrow> string \<Rightarrow> jsval" where
  "optChain v k = (if nullish v then Undefined else getPropD v k)"

text \<open>The entry of a channel that passed the filter.\<close>

definition kickEntry :: "clock \<Rightarrow> jsval \<Rightarrow> jsobj" where
  "kickEntry c ch =
     [(''id'', getPropD ch ''broadcaster_user_id''),
      (''slug'', getPropD ch ''slug''),
      (''title'', js_or (getPropD ch ''stream_title'')
                    (Str (''Live on '' @ toStr (getPropD ch ''slug'')))),
      (''game'', js_or (optChain (getPropD ch ''category'') ''name'') (Str ''Unknown'')),
      (''viewers'', js_or (getPropD (getPropD ch ''stream'') ''viewer_count'') (Num 0)),
      (''started_at'', js_or (getPropD (getPropD ch ''stream'') ''start_time'') Null),
      (''uptime'', if truthy (getPropD (getPropD ch ''stream'') ''start_time'')
                   then Str (computeUptime c (getPropD (getPropD ch ''stream'') ''start_time''))
                   else Str []),
      (''url'', Str (''https://kick.com/'' @ toStr (getPropD ch ''slug'')))]"

text \<open>\<^verbatim>\<open>arr.filter(p)\<close> with a predicate that may throw.\<close>

fun filterE :: "('a \<Rightarrow> error + bool) \<Rightarrow> 'a list \<Rightarrow> error + 'a list" where
  "filterE p [] = Inr []"
| "filterE p (x # xs) =
     (case p x of
        Inl e \<Rightarrow> Inl e
      | Inr b \<Rightarrow> (case filterE p xs of
                   Inl e \<Rightarrow> Inl e
                 | Inr ys \<Rightarrow> Inr (if b then x # ys else ys)))"

text \<open>\<^verbatim>\<open>(json.data || []).filter(...).map(...)\<close>\<close>

definition kickEntries :: "clock \<Rightarrow> jsval \<Rightarrow> error + jsobj list" where
  "kickEntries c json =
     bindE (getProp json ''data'') (\<lambda>d.
       case js_or d (Arr []) of
         Arr channels \<Rightarrow> bindE (filterE kickIsLive channels) (\<lambda>live. Inr (map (kickEntry c) live))
       | _ \<Rightarrow> Inl TypeError)"

fun checkKick :: "nat \<Rightarrow> jsobj \<Rightarrow> world \<Rightarrow> ((error + jsobj list) \<times> world) option" where
  "checkKick 0 kickSettings w = None"
| "checkKick (Suc n) kickSettings w =
     (if \<not> truthy (field kickSettings ''channels'') then Some (Inr [], w)
      else
        (case kickIds (field kickSettings ''channels'') of
           Inl e \<Rightarrow> Some (Inl e, w)
         | Inr ids \<Rightarrow>
             if ids = [] then Some (Inr [], w)
             else
               (case fetch (KickChannels ids
                              (if truthy (field kickSettings ''accessToken'')
                               then Some (field kickSettings ''accessToken'') else None)) w of
                  (Inl e, w1) \<Rightarrow> Some (Inr [], w1)
                | (Inr (Response status body), w1) \<Rightarrow>
                    if status = 401 \<or> status = 403 then
                      (case refreshKickToken (field kickSettings ''clientId'')
                              (field kickSettings ''clientSecret'')
                              (field kickSettings ''refreshToken'') w1 of
                         (Inl e, w2) \<Rightarrow> Some (Inr [], w2)
                       | (Inr newToken, w2) \<Rightarrow>
                           if truthy newToken then
                             (case checkKick n
                                     (AList.update ''accessToken'' newToken kickSettings) w2 of
                                None \<Rightarrow> None
                              | Some (Inl e, w3) \<Rightarrow> Some (Inr [], w3)
                              | Some (Inr r, w3) \<Rightarrow> Some (Inr r, w3))
                           else Some (Inr [], w2))
                    else if \<not> ok status then Some (Inr [], w1)
                    else
                      (case body of
                         None \<Rightarrow> Some (Inr [], w1)
                       | Some json \<Rightarrow>
                           (case kickEntries (time w1) json of
                              Inl e \<Rightarrow> Some (Inr [], w1)
                            | Inr entries \<Rightarrow> Some (Inr entries, w1))))))"

subsection \<open>YouTube\<close>

text \<open>
  \<^verbatim>\<open>items.length\<close> and \<^verbatim>\<open>items[0]\<close> on the value of \<^verbatim>\<open>j.items\<close>, which is truthy
  where they are read.
\<close>

definition lengthOf :: "jsval \<Rightarrow> jsval" where
  "lengthOf v =
     (case v of
        Arr xs \<Rightarrow> Num (int (length xs))
      | Str s \<Rightarrow> Num (int (length s))
      | Obj kvs \<Rightarrow> field kvs ''length''
      | _ \<Rightarrow> Undefined)"

definition first :: "jsval \<Rightarrow> jsval" where
  "first v =
     (case v of
        Arr xs \<Rightarrow> (case xs of [] \<Rightarrow> Undefined | x # r \<Rightarrow> x)
      | Str s \<Rightarrow> (case s of [] \<Rightarrow> Undefined | ch # r \<Rightarrow> Str [ch])
      | Obj kvs \<Rightarrow> field kvs ''0''
      | _ \<Rightarrow> Undefined)"

text \<open>
  The body of the \<^verbatim>\<open>try\<close> block after \<^verbatim>\<open>r.json()\<close>: the entry pushed for the
  channel, \<open>None\<close> when the search has no item.
\<close>

definition youtubeEntry :: "clock \<Rightarrow> jsval \<Rightarrow> jsval \<Rightarrow> error + jsobj option" where
  "youtubeEntry c channelId j =
     bindE (getProp j ''items'') (\<lambda>items.
       if truthy items \<and> truthy (lengthOf items) then
         (let v = first items in
          bindE (getProp v ''snippet'') (\<lambda>snippet.
          bindE (getProp snippet ''title'') (\<lambda>title.
          bindE (getProp v ''id'') (\<lambda>vid.
          bindE (getProp vid ''videoId'') (\<lambda>videoId.
            Inr (Some [(''channelId'', channelId),
                       (''title'', title),
                       (''url'', Str (''https://www.youtube.com/watch?v='' @ toStr videoId)),
                       (''started_at'', getPropD snippet ''publishedAt''),
                       (''duration'', if truthy (getPropD snippet ''publishedAt'')
                                      then Str (computeUptime c (getPropD snippet ''publishedAt''))
                                      else Str [])]))))))
       else Inr None)"

text \<open>One round of the \<^verbatim>\<open>for\<close> loop, from the fetch on, with its \<^verbatim>\<open>try/catch\<close>.\<close>

definition youtubeChannel ::
  "jsval \<Rightarrow> jsval \<Rightarrow> jsobj list \<Rightarrow> world \<Rightarrow> jsobj list \<times> world" where
  "youtubeChannel apiKey channelId out w =
     (case fetch (YouTubeSearch channelId apiKey) w of
        (Inl e, w1) \<Rightarrow> (out, w1)
      | (Inr (Response status body), w1) \<Rightarrow>
          if \<not> ok status then (out, w1)
          else (case body of
                  None \<Rightarrow> (out, w1)
                | Some j \<Rightarrow>
                    (case youtubeEntry (time w1) channelId j of
                       Inl e \<Rightarrow> (out, w1)
                     | Inr None \<Rightarrow> (out, w1)
                     | Inr (Some entry) \<Rightarrow> (out @ [entry], w1))))"

text \<open>
  The loop over the channels. \<^verbatim>\<open>ch.id || ch.channelId || ch\<close> is outside the
  \<^verbatim>\<open>try\<close>: an undefined or null channel ends the whole function with a TypeError.
\<close>

fun youtubeLoop ::
  "jsval \<Rightarrow> jsval list \<Rightarrow> jsobj list \<Rightarrow> world \<Rightarrow> (error + jsobj list) \<times> world" where
  "youtubeLoop apiKey [] out w = (Inr out, w)"
| "youtubeLoop apiKey (ch # chs) out w =
     (if nullish ch then (Inl TypeError, w)
      else
        (let channelId = js_or (getPropD ch ''id'') (js_or (getPropD ch ''channelId'') ch) in
         if \<not> truthy channelId then youtubeLoop apiKey chs out w
         else (case youtubeChannel apiKey channelId out w of
                 (out', w1) \<Rightarrow> youtubeLoop apiKey chs out' w1)))"

text \<open>
  What \<^verbatim>\<open>for (const ch of channels)\<close> iterates: the elements of an array, the
  characters of a string; any other truthy value is not iterable.
\<close>

definition iterate :: "jsval \<Rightarrow> error + jsval list" where
  "iterate v =
     (case v of
        Arr xs \<Rightarrow> Inr xs
      | Str s \<Rightarrow> Inr (map (\<lambda>ch. Str [ch]) s)
      | _ \<Rightarrow> Inl TypeError)"

definition checkYouTube :: "jsobj \<Rightarrow> world \<Rightarrow> (error + jsobj list) \<times> world" where
  "checkYouTube ytSettings w =
     (if \<not> truthy (field ytSettings ''channels'') \<or> \<not> truthy (field ytSettings ''clientId'')
      then (Inr [], w)
      else (case iterate (field ytSettings ''channels'') of
              Inl e \<Rightarrow> (Inl e, w)
            | Inr chs \<Rightarrow> youtubeLoop (field ytSettings ''clientId'') chs [] w))"

section \<open>Poll orchestrator\<close>

text \<open>\<^verbatim>\<open>try { live.p = await check(...) } catch(e) { console.error(e) }\<close>\<close>

definition caught :: "jsobj list \<Rightarrow> error + jsobj list \<Rightarrow> jsobj list" where
  "caught old r = (case r of Inl e \<Rightarrow> old | Inr entries \<Rightarrow> entries)"

definition pollAll :: "nat \<Rightarrow> world \<Rightarrow> ((error + unit) \<times> world) option" where
  "pollAll n w =
     (let settings = loadSettings w;
          live = \<lparr> twitch = [], kick = [], youtube = [] \<rparr>
      in case checkTwitch n (platformObj settings ''twitch'') w of
           None \<Rightarrow> None
         | Some (r1, w1) \<Rightarrow>
             (let live = live\<lparr>twitch := caught (twitch live) r1\<rparr>
              in case checkKick n (platformObj settings ''kick'') w1 of
                   None \<Rightarrow> None
                 | Some (r2, w2) \<Rightarrow>
                     (let live = live\<lparr>kick := caught (kick live) r2\<rparr>
                      in case checkYouTube (platformObj settings ''youtube'') w2 of
                           (r3, w3) \<Rightarrow>
                             (let live = live\<lparr>youtube := caught (youtube live) r3\<rparr>;
                                  w4 = w3\<lparr>storage := (storage w3)\<lparr>streamtime_live := Some live\<rparr>\<rparr>;
                                  w5 = w4\<lparr>storage := (storage w4)
                                          \<lparr>streamtime_last_poll := Some (nowIso w4)\<rparr>\<rparr>
                              in Some (Inr (), w5)))))"

section \<open>Notification differ\<close>

definition twitchKey :: "jsobj \<Rightarrow> string" where
  "twitchKey s = ''twitch-'' @ toStr (field s ''user_id'')"

definition kickKey :: "jsobj \<Rightarrow> string" where
  "kickKey s = ''kick-'' @ toStr (field s ''id'')"

definition youtubeKey :: "jsobj \<Rightarrow> string" where
  "youtubeKey s = ''yt-'' @ toStr (field s ''channelId'')"

text \<open>\<^verbatim>\<open>data.streamtime_live || {}\<close>, with \<^verbatim>\<open>liveData.p || []\<close> for each platform.\<close>

definition liveData :: "world \<Rightarrow> live_state" where
  "liveData w =
     (case streamtime_live (storage w) of
        None \<Rightarrow> \<lparr> twitch = [], kick = [], youtube = [] \<rparr>
      | Some l \<Rightarrow> l)"

definition currentLiveIds :: "live_state \<Rightarrow> string set" where
  "currentLiveIds l = set (map twitchKey (twitch l) @ map kickKey (kick l) @ map youtubeKey (youtube l))"

text \<open>The body of each of the three notification loops.\<close>

definition notify :: "string \<Rightarrow> string \<Rightarrow> jsval \<Rightarrow> world \<Rightarrow> world" where
  "notify ident title message w =
     (if ident \<notin> previousLiveChannels w
      then w\<lparr>notifications := notifications w @ [(ident, title, message)]\<rparr>
      else w)"

definition notifyTwitch :: "world \<Rightarrow> jsobj \<Rightarrow> world" where
  "notifyTwitch w stream =
     notify (twitchKey stream) (toStr (field stream ''display_name'') @ '' is live on Twitch!'')
       (field stream ''title'') w"

definition notifyKick :: "world \<Rightarrow> jsobj \<Rightarrow> world" where
  "notifyKick w stream =
     notify (kickKey stream) (toStr (field stream ''slug'') @ '' is live on Kick!'')
       (field stream ''title'') w"

definition notifyYouTube :: "world \<Rightarrow> jsobj \<Rightarrow> world" where
  "notifyYouTube w stream =
     notify (youtubeKey stream) (''YouTube Live: '' @ toStr (field stream ''title''))
       (Str ''A subscribed channel just went live!'') w"

definition checkLiveChannels :: "world \<Rightarrow> world" where
  "checkLiveChannels w =
     (let l = liveData w;
          currentLiveIds = currentLiveIds l;
          w1 = foldl notifyTwitch w (twitch l);
          w2 = foldl notifyKick w1 (kick l);
          w3 = foldl notifyYouTube w2 (youtube l)
      in w3\<lparr>previousLiveChannels := currentLiveIds\<rparr>)"

section \<open>Options page: saving settings\<close>




section \<open>Concrete scenarios\<close>

text \<open>
  Settings as the options page stores them, one channel per platform, and remote services
  that refuse the first \<open>k\<close> fetches of a run of the Twitch streams and Kick channels
  queries with status 401, grant every token refresh, and otherwise report the configured
  channel live.
\<close>

definition sampleSettings :: settings where
  "sampleSettings =
     [(''twitch'', [(''clientId'', Str ''c''), (''clientSecret'', Str ''s''),
                    (''refreshToken'', Str ''r0''),
                    (''channels'', Arr [Obj [(''id'', Str ''42''), (''login'', Str ''alice'')]])]),
      (''kick'', [(''clientId'', Str ''kc''), (''clientSecret'', Str ''ks''),
                  (''refreshToken'', Str ''kr0''),
                  (''channels'', Arr [Obj [(''id'', Num 7), (''slug'', Str ''bob'')]])]),
      (''youtube'', [(''clientId'', Str ''key''),
                     (''channels'', Arr [Obj [(''id'', Str ''UC1'')]])])]"

definition twitchBody :: jsval where
  "twitchBody =
     Obj [(''data'', Arr [Obj [(''user_id'', Str ''42''), (''user_login'', Str ''alice''),
                               (''user_name'', Str ''Alice''), (''title'', Str ''Speedrun''),
                               (''game_name'', Str ''Chess''), (''viewer_count'', Num 12),
                               (''started_at'', Str ''2024-01-01T00:00:00Z'')]])]"

definition kickBody :: jsval where
  "kickBody =
     Obj [(''data'', Arr [Obj [(''broadcaster_user_id'', Num 7), (''slug'', Str ''bob''),
                               (''stream_title'', Str ''Cooking''),
                               (''category'', Obj [(''name'', Str ''IRL'')]),
                               (''stream'', Obj [(''is_live'', Bool True),
                                                 (''viewer_count'', Num 3),
                                                 (''start_time'', Str ''2024-01-01T02:00:00Z'')])]])]"

definition youtubeBody :: jsval where
  "youtubeBody =
     Obj [(''items'', Arr [Obj [(''id'', Obj [(''videoId'', Str ''v1'')]),
                                (''snippet'', Obj [(''title'', Str ''Concert''),
                                                   (''publishedAt'', Str ''2024-01-01T02:00:00Z'')])]])]"

definition sampleServer :: "nat \<Rightarrow> nat \<Rightarrow> request \<Rightarrow> error + response" where
  "sampleServer k n req =
     (case req of
        TwitchStreams ids clientId token \<Rightarrow>
          if n < k then Inr (Response 401 None) else Inr (Response 200 (Some twitchBody))
      | TwitchTokenRefresh refreshToken clientId clientSecret \<Rightarrow>
          Inr (Response 200 (Some (Obj [(''access_token'', Str ''fresh''),
                                        (''refresh_token'', Str ''r1'')])))
      | KickChannels ids token \<Rightarrow>
          if n < k then Inr (Response 401 None) else Inr (Response 200 (Some kickBody))
      | KickTokenRefresh refreshToken clientId clientSecret \<Rightarrow>
          Inr (Response 200 (Some (Obj [(''access_token'', Str ''kfresh'')])))
      | YouTubeSearch channelId apiKey \<Rightarrow> Inr (Response 200 (Some youtubeBody)))"

text \<open>
  Remote services that answer every streams and channels query with status 403 and grant
  every token refresh.
\<close>

definition forbiddingServer :: "nat \<Rightarrow> request \<Rightarrow> error + response" where
  "forbiddingServer n req =
     (case req of
        TwitchStreams ids clientId token \<Rightarrow> Inr (Response 403 None)
      | TwitchTokenRefresh refreshToken clientId clientSecret \<Rightarrow>
          Inr (Response 200 (Some (Obj [(''access_token'', Str ''fresh'')])))
      | KickChannels ids token \<Rightarrow> Inr (Response 403 None)
      | KickTokenRefresh refreshToken clientId clientSecret \<Rightarrow>
          Inr (Response 200 (Some (Obj [(''access_token'', Str ''kfresh'')])))
      | YouTubeSearch channelId apiKey \<Rightarrow> Inr (Response 200 (Some youtubeBody)))"

definition sampleCookies :: "(string \<times> string) \<rightharpoonup> string" where
  "sampleCookies =
     [(''https://api.twitch.tv/'', ''twitch_access_token'') \<mapsto> ''expired'',
      (''https://kick.com/'', ''kick_access_token'') \<mapsto> ''kexpired'']"

definition sampleWorld :: "(nat \<Rightarrow> request \<Rightarrow> error + response) \<Rightarrow> world" where
  "sampleWorld srv =
     \<lparr> storage = \<lparr> streamtime = Some sampleSettings, streamtime_live = None,
                   streamtime_last_poll = None \<rparr>,
       cookies = sampleCookies, server = srv, fetched = [], time = sampleClock,
       notifications = [], previousLiveChannels = {} \<rparr>"

text \<open>The settings objects \<^verbatim>\<open>pollAll\<close> hands to the adapters in these worlds.\<close>

definition sampleTwitch :: jsobj where
  "sampleTwitch = platformObj (loadSettings (sampleWorld (sampleServer 0))) ''twitch''"

definition sampleKick :: jsobj where
  "sampleKick = platformObj (loadSettings (sampleWorld (sampleServer 0))) ''kick''"

definition sampleYouTube :: jsobj where
  "sampleYouTube = platformObj (loadSettings (sampleWorld (sampleServer 0))) ''youtube''"


section \<open>Predicates and scenarios of the properties\<close>

text \<open>No platform object of a settings record has a value under \<^verbatim>\<open>accessToken\<close>.\<close>

definition noAccessToken :: "settings \<Rightarrow> bool" where
  "noAccessToken st = list_all (\<lambda>(p, obj). field obj ''accessToken'' = Undefined) st"

text \<open>The JSON body the remote services give to the next fetch, when it is for \<open>req\<close>.\<close>

definition nextBody :: "world \<Rightarrow> request \<Rightarrow> jsval" where
  "nextBody w req =
     (case server w (length (fetched w)) req of
        Inr (Response status (Some data)) \<Rightarrow> data
      | _ \<Rightarrow> Undefined)"

text \<open>The stored record of the settings-merge example.\<close>

definition mergeExample :: world where
  "mergeExample = (sampleWorld (sampleServer 0))
     \<lparr>storage := \<lparr> streamtime = Some [(''twitch'', [(''clientId'', Str ''x'')]),
                                        (''kick'', [(''clientId'', Str ''k''),
                                                    (''channels'', Arr [Obj [(''id'', Num 7)]])])],
                   streamtime_live = None, streamtime_last_poll = None \<rparr>\<rparr>"

text \<open>
  The next fetch, when it is for the refresh grant \<open>req\<close>, succeeds with a JSON body
  whose \<^verbatim>\<open>access_token\<close> is a non-empty string.
\<close>

definition granted :: "world \<Rightarrow> request \<Rightarrow> bool" where
  "granted w req =
     (case server w (length (fetched w)) req of
        Inr (Response status (Some data)) \<Rightarrow>
          ok status \<and> isStr (getPropD data ''access_token'') \<and> truthy (getPropD data ''access_token'')
      | _ \<Rightarrow> False)"


text \<open>The world after a poll has stored the snapshot \<open>l\<close>.\<close>

definition withLive :: "live_state \<Rightarrow> world \<Rightarrow> world" where
  "withLive l w = w\<lparr>storage := (storage w)\<lparr>streamtime_live := Some l\<rparr>\<rparr>"

text \<open>
  The platform keys of a snapshot as the specification words them, \<^verbatim>\<open>twitch-<user_id>\<close>,
  \<^verbatim>\<open>kick-<id>\<close> and \<^verbatim>\<open>yt-<channelId>\<close>, one per entry, in the order of the snapshot's
  lists. This definition follows the specification; it is compared below with the keys
  that \<^verbatim>\<open>checkLiveChannels\<close> computes.
\<close>

definition platformKeys :: "live_state \<Rightarrow> string list" where
  "platformKeys l =
     map (\<lambda>s. ''twitch-'' @ toStr (field s ''user_id'')) (twitch l)
     @ map (\<lambda>s. ''kick-'' @ toStr (field s ''id'')) (kick l)
     @ map (\<lambda>s. ''yt-'' @ toStr (field s ''channelId'')) (youtube l)"

text \<open>
  The notifications that the next run of \<^verbatim>\<open>checkLiveChannels\<close> creates, one per call
  of \<^verbatim>\<open>browser.notifications.create\<close>, in order.
\<close>

definition created :: "world \<Rightarrow> (string \<times> string \<times> jsval) list" where
  "created w = drop (length (notifications w)) (notifications (checkLiveChannels w))"

text \<open>Stored settings whose YouTube channel list names the channel \<^verbatim>\<open>UC1\<close> twice.\<close>

definition duplicateYouTube :: world where
  "duplicateYouTube = (sampleWorld (sampleServer 0))
     \<lparr> storage := \<lparr> streamtime = Some (AList.update ''youtube''
                          [(''clientId'', Str ''key''),
                           (''channels'', Arr [Obj [(''id'', Str ''UC1'')], Obj [(''id'', Str ''UC1'')]])]
                          sampleSettings),
                      streamtime_live = None, streamtime_last_poll = None \<rparr> \<rparr>"



text \<open>
  The de-duplication example: \<^verbatim>\<open>twitch-1\<close> was live at the last check, the stored
  snapshot has \<^verbatim>\<open>twitch-1\<close> and \<^verbatim>\<open>twitch-2\<close> live.
\<close>

definition dedupExample :: world where
  "dedupExample = (sampleWorld (sampleServer 0))
     \<lparr> storage := \<lparr> streamtime = Some sampleSettings,
                      streamtime_live = Some \<lparr> twitch = [[(''user_id'', Str ''1''), (''display_name'', Str ''One''),
                                                            (''title'', Str ''first'')],
                                                           [(''user_id'', Str ''2''), (''display_name'', Str ''Two''),
                                                            (''title'', Str ''second'')]],
                                                 kick = [], youtube = [] \<rparr>,
                      streamtime_last_poll = None \<rparr>,
       previousLiveChannels := {''twitch-1''} \<rparr>"

text \<open>The token refreshes among the requests a run has made.\<close>

definition isRefresh :: "request \<Rightarrow> bool" where
  "isRefresh req = (case req of TwitchTokenRefresh r c s \<Rightarrow> True | KickTokenRefresh r c s \<Rightarrow> True | _ \<Rightarrow> False)"

definition refreshCount :: "world \<Rightarrow> nat" where
  "refreshCount w = length (filter isRefresh (fetched w))"

text \<open>
  Stored settings whose Twitch channel list holds a \<^verbatim>\<open>null\<close>: mapping the list throws
  before the \<^verbatim>\<open>try\<close> block of \<^verbatim>\<open>checkTwitch\<close>.
\<close>

definition brokenTwitch :: world where
  "brokenTwitch = (sampleWorld (sampleServer 0))
     \<lparr> storage := \<lparr> streamtime = Some (AList.update ''twitch''
                          [(''clientId'', Str ''c''), (''channels'', Arr [Null])] sampleSettings),
                      streamtime_live = None, streamtime_last_poll = None \<rparr> \<rparr>"

text \<open>
  The LiveEntry shape of the specification,
  \<^verbatim>\<open>{ platformKey, displayName, title, game, viewers?, startedAt, uptime, url }\<close>, and the
  key lists of the objects the three adapters build.
\<close>

definition liveEntryKeys :: "string list" where
  "liveEntryKeys = [''platformKey'', ''displayName'', ''title'', ''game'', ''viewers'',
                    ''startedAt'', ''uptime'', ''url'']"

definition hasLiveEntryShape :: "jsobj \<Rightarrow> bool" where
  "hasLiveEntryShape e =
     (set (map fst e) \<subseteq> set liveEntryKeys
      \<and> set liveEntryKeys - {''viewers''} \<subseteq> set (map fst e))"

definition twitchEntryKeys :: "string list" where
  "twitchEntryKeys = [''user_id'', ''user_login'', ''display_name'', ''title'', ''game'',
                      ''viewers'', ''started_at'', ''uptime'', ''url'']"

definition kickEntryKeys :: "string list" where
  "kickEntryKeys = [''id'', ''slug'', ''title'', ''game'', ''viewers'', ''started_at'',
                    ''uptime'', ''url'']"

definition youtubeEntryKeys :: "string list" where
  "youtubeEntryKeys = [''channelId'', ''title'', ''url'', ''started_at'', ''duration'']"

text \<open>The entries the adapters return in the world of \<open>sampleServer 0\<close>.\<close>

definition sampleTwitchEntry :: jsobj where
  "sampleTwitchEntry =
     [(''user_id'', Str ''42''), (''user_login'', Str ''alice''),
      (''display_name'', Str ''Alice''), (''title'', Str ''Speedrun''),
      (''game'', Str ''Chess''), (''viewers'', Num 12),
      (''started_at'', Str ''2024-01-01T00:00:00Z''),
      (''uptime'', Str ''2h 30m''),
      (''url'', Str ''https://twitch.tv/alice'')]"

definition sampleKickEntry :: jsobj where
  "sampleKickEntry =
     [(''id'', Num 7), (''slug'', Str ''bob''), (''title'', Str ''Cooking''),
      (''game'', Str ''IRL''), (''viewers'', Num 3),
      (''started_at'', Str ''2024-01-01T02:00:00Z''), (''uptime'', Str ''30m''),
      (''url'', Str ''https://kick.com/bob'')]"

definition sampleYouTubeEntry :: jsobj where
  "sampleYouTubeEntry =
     [(''channelId'', Str ''UC1''), (''title'', Str ''Concert''),
      (''url'', Str ''https://www.youtube.com/watch?v=v1''),
      (''started_at'', Str ''2024-01-01T02:00:00Z''), (''duration'', Str ''30m'')]"


text \<open>The remote services answer no fetch with status 401 or 403.\<close>

definition neverRefuses :: "world \<Rightarrow> bool" where
  "neverRefuses w =
     (\<forall>n req body. server w n req \<noteq> Inr (Response 401 body)
                  \<and> server w n req \<noteq> Inr (Response 403 body))"

section \<open>Properties of the uptime computation\<close>

subsection \<open>Decimal numerals\<close>

lemma isDigit_digit: "d < 10 \<Longrightarrow> isDigit (digit d)"
proof -
  assume "d < 10"
  then have "d \<in> {0,1,2,3,4,5,6,7,8,9}" by auto
  then show ?thesis by (auto simp: isDigit_def digit_def)
qed

lemma digitVal_digit: "d < 10 \<Longrightarrow> digitVal (digit d) = d"
proof -
  assume "d < 10"
  then have "d \<in> {0,1,2,3,4,5,6,7,8,9}" by auto
  then show ?thesis by (auto simp: digitVal_def digit_def)
qed

lemma showNat_nonempty: "showNat n \<noteq> []"
  by (subst showNat.simps) simp

lemma showNat_digits: "list_all isDigit (showNat n)"
proof (induction n rule: showNat.induct)
  case (1 n)
  show ?case
  proof (cases "n < 10")
    case True
    then show ?thesis by (subst showNat.simps) (simp add: isDigit_digit)
  next
    case False
    with 1 show ?thesis by (subst showNat.simps) (simp add: isDigit_digit)
  qed
qed

lemma readNat_snoc: "readNat (ds @ [ch]) = 10 * readNat ds + digitVal ch"
  by (simp add: readNat_def)

lemma readNat_showNat: "readNat (showNat n) = n"
proof (induction n rule: showNat.induct)
  case (1 n)
  show ?case
  proof (cases "n < 10")
    case True
    then show ?thesis by (subst showNat.simps) (simp add: readNat_def digitVal_digit)
  next
    case False
    with 1 show ?thesis by (subst showNat.simps) (simp add: readNat_snoc digitVal_digit)
  qed
qed

lemma takeWhile_digits:
  "list_all isDigit ds \<Longrightarrow> \<not> isDigit ch \<Longrightarrow> takeWhile isDigit (ds @ ch # rest) = ds"
  by (induction ds) auto

lemma dropWhile_digits:
  "list_all isDigit ds \<Longrightarrow> \<not> isDigit ch \<Longrightarrow> dropWhile isDigit (ds @ ch # rest) = ch # rest"
  by (induction ds) auto

lemma not_digit_m: "\<not> isDigit CHR ''m''"
  by (simp add: isDigit_def)

lemma not_digit_h: "\<not> isDigit CHR ''h''"
  by (simp add: isDigit_def)

lemmas fmt_simps = takeWhile_digits dropWhile_digits showNat_digits not_digit_m not_digit_h
  showNat_nonempty readNat_showNat

lemma matches_m_show: "matches_m (showNat n @ [CHR ''m''])"
  by (simp add: matches_m_def fmt_simps)

lemma not_matches_h_m_show: "\<not> matches_h_m (showNat n @ [CHR ''m''])"
  by (simp add: matches_h_m_def Let_def fmt_simps)

lemma matches_h_m_show: "matches_h_m (showNat a @ CHR ''h'' # CHR '' '' # showNat b @ [CHR ''m''])"
  by (simp add: matches_h_m_def Let_def fmt_simps)

lemma not_matches_m_show: "\<not> matches_m (showNat a @ CHR ''h'' # CHR '' '' # showNat b @ [CHR ''m''])"
  by (simp add: matches_m_def fmt_simps)

lemma uptimeMinutes_m: "uptimeMinutes (showNat n @ [CHR ''m'']) = Some n"
  by (simp add: uptimeMinutes_def matches_m_show fmt_simps)

lemma uptimeMinutes_h_m: "uptimeMinutes (showNat a @ CHR ''h'' # CHR '' '' # showNat b @ [CHR ''m'']) = Some (60 * a + b)"
  by (simp add: uptimeMinutes_def matches_h_m_show not_matches_m_show fmt_simps)

subsection \<open>Hours and minutes of an elapsed time\<close>

lemma minutes_of_seconds: "(n::nat) div 1000 mod 3600 div 60 = (n div 60000) mod 60"
proof -
  define a where "a = n div 1000"
  have "a mod 3600 = 60 * (a div 60 mod 60) + a mod 60"
    using mod_mult2_eq[of a 60 60] by simp
  then have "a mod 3600 div 60 = a div 60 mod 60"
    by simp
  moreover have "a div 60 = n div 60000"
    by (simp add: a_def div_mult2_eq[symmetric])
  ultimately show ?thesis by (simp add: a_def)
qed
lemma hours_of_seconds: "(n::nat) div 1000 div 3600 = n div 3600000"
  by (simp add: div_mult2_eq[symmetric])
lemma int_parts: "0 \<le> (e::int) \<Longrightarrow> e div 1000 div 3600 = int (nat e div 3600000)"
  "0 \<le> (e::int) \<Longrightarrow> e div 1000 mod 3600 div 60 = int ((nat e div 60000) mod 60)"
proof -
  assume "0 \<le> e"
  then obtain n where e: "e = int n" using nonneg_int_cases by blast
  show "e div 1000 div 3600 = int (nat e div 3600000)"
  proof -
    have "int (n div 1000 div 3600) = int (n div 3600000)"
      by (simp only: hours_of_seconds)
    then show ?thesis unfolding e by (simp add: zdiv_int)
  qed
  show "e div 1000 mod 3600 div 60 = int ((nat e div 60000) mod 60)"
  proof -
    have "int (n div 1000 mod 3600 div 60) = int (n div 60000 mod 60)"
      by (simp only: minutes_of_seconds)
    then show ?thesis unfolding e by (simp add: zdiv_int zmod_int)
  qed
qed


text \<open>On a timestamp that parses, the result is the formatted, clamped elapsed time.\<close>

lemma computeUptime_valid:
  assumes "dateParse c s = Some t"
  shows "computeUptime c (Str s) = fmtUptime (nat (max 0 (now c - t)))"
proof -
  define e where "e = max 0 (now c - t)"
  have e0: "0 \<le> e" by (simp add: e_def)
  have "computeUptime c (Str s) =
      (if 0 < e div 1000 div 3600
       then showInt (e div 1000 div 3600) @ ''h '' @ showInt (e div 1000 mod 3600 div 60) @ ''m''
       else showInt (e div 1000 mod 3600 div 60) @ ''m'')"
    using assms by (simp add: computeUptime_def computeUptime_try_def e_def Let_def)
  also have "\<dots> = fmtUptime (nat e)"
    by (simp only: int_parts[OF e0] fmtUptime_def showInt_def) simp
  finally show ?thesis by (simp only: e_def)
qed

text \<open>On a string that does not parse, the arithmetic runs on NaN.\<close>

lemma computeUptime_invalid:
  "dateParse c s = None \<Longrightarrow> computeUptime c (Str s) = ''NaNm''"
  by (simp add: computeUptime_def computeUptime_try_def)

lemma uptimeMinutes_fmtUptime: "uptimeMinutes (fmtUptime e) = Some (e div 60000)"
proof (cases "e div 3600000 > 0")
  case True
  have "60 * (e div 3600000) + (e div 60000) mod 60 = e div 60000"
    using div_mult2_eq[of e 60000 60] by (simp add: mult.commute)
  then show ?thesis using True by (simp add: fmtUptime_def uptimeMinutes_h_m)
next
  case False
  then have "e div 60000 < 60" by (simp add: div_less_iff_less_mult)
  then show ?thesis using False by (simp add: fmtUptime_def uptimeMinutes_m)
qed

lemma fmtUptime_format:
  "if 3600000 \<le> e then matches_h_m (fmtUptime e) else matches_m (fmtUptime e)"
proof (cases "3600000 \<le> e")
  case True
  then have "0 < e div 3600000" by (simp add: div_greater_zero_iff)
  then show ?thesis using True by (simp add: fmtUptime_def matches_h_m_show)
next
  case False
  then show ?thesis by (simp add: fmtUptime_def matches_m_show)
qed

text \<open>
  C4. For every input string that does not parse as a timestamp, \<^verbatim>\<open>computeUptime\<close>
  is to return the empty string. \<^verbatim>\<open>new Date\<close> does not throw on such a string, so
  the \<^verbatim>\<open>catch\<close> branch that returns the empty string is not taken: the function
  returns normally, with the text \<^verbatim>\<open>NaNm\<close>.
\<close>

theorem computeUptime_unparsed_NaNm:
  "dateParse sampleClock ''not a timestamp'' = None
   \<and> computeUptime sampleClock (Str ''not a timestamp'') = ''NaNm''
   \<and> computeUptime sampleClock (Str ''not a timestamp'') \<noteq> []"
  by (simp add: computeUptime_def computeUptime_try_def sampleClock_def sampleParse_def)

text \<open>
  C7. For a timestamp that parses, with \<open>now - t\<close> the elapsed milliseconds:
  a negative elapsed time gives the result of zero, \<^verbatim>\<open>0m\<close>; the result matches
  \<^verbatim>\<open>/^\d+h \d+m$/\<close> when at least one hour has elapsed and \<^verbatim>\<open>/^\d+m$/\<close> otherwise;
  the whole minutes the result stands for are the clamped elapsed minutes; and of two
  runs, the one with the longer elapsed time gives a result that stands for at least as
  many minutes.
\<close>

theorem computeUptime_clamped_format_monotonic:
  assumes "dateParse c s = Some t" and "dateParse c' s' = Some t'"
    and "now c - t \<le> now c' - t'"
  shows "(now c \<le> t \<longrightarrow> computeUptime c (Str s) = ''0m'')
    \<and> (if 3600000 \<le> now c - t then matches_h_m (computeUptime c (Str s))
        else matches_m (computeUptime c (Str s)))
    \<and> uptimeMinutes (computeUptime c (Str s)) = Some (nat (max 0 (now c - t)) div 60000)
    \<and> uptimeLe (computeUptime c (Str s)) (computeUptime c' (Str s'))"
proof -
  let ?e = "nat (max 0 (now c - t))"
  have out: "computeUptime c (Str s) = fmtUptime ?e"
    by (rule computeUptime_valid[OF assms(1)])
  have out': "computeUptime c' (Str s') = fmtUptime (nat (max 0 (now c' - t')))"
    by (rule computeUptime_valid[OF assms(2)])
  have clamp: "now c \<le> t \<longrightarrow> computeUptime c (Str s) = ''0m''"
  proof
    assume "now c \<le> t"
    then have "?e = 0" by simp
    then show "computeUptime c (Str s) = ''0m''"
      by (simp add: out fmtUptime_def showNat.simps digit_def)
  qed
  have iff: "(3600000 \<le> now c - t) = (3600000 \<le> ?e)" by linarith
  have fmt: "if 3600000 \<le> now c - t then matches_h_m (computeUptime c (Str s))
        else matches_m (computeUptime c (Str s))"
    unfolding out iff by (rule fmtUptime_format)
  have mono: "?e div 60000 \<le> nat (max 0 (now c' - t')) div 60000"
    using assms(3) by (intro div_le_mono) linarith
  have le: "uptimeLe (computeUptime c (Str s)) (computeUptime c' (Str s'))"
    using mono by (simp add: uptimeLe_def out out' uptimeMinutes_fmtUptime)
  show ?thesis
    using clamp fmt le by (simp only: out uptimeMinutes_fmtUptime simp_thms)
qed

theorem computeUptime_clamped_format_monotonic_witness:
  "computeUptime sampleClock (Str ''2024-01-01T03:00:00Z'') = ''0m''
   \<and> matches_m (computeUptime sampleClock (Str ''2024-01-01T02:00:00Z''))
   \<and> matches_h_m (computeUptime sampleClock (Str ''2024-01-01T00:00:00Z''))
   \<and> uptimeMinutes (computeUptime sampleClock (Str ''2024-01-01T02:00:00Z'')) = Some 30
   \<and> uptimeLe (computeUptime sampleClock (Str ''2024-01-01T02:00:00Z''))
        (computeUptime sampleClock (Str ''2024-01-01T00:00:00Z''))"
proof -
  have p0: "dateParse sampleClock ''2024-01-01T00:00:00Z'' = Some 1704067200000"
    and p2: "dateParse sampleClock ''2024-01-01T02:00:00Z'' = Some 1704074400000"
    and p3: "dateParse sampleClock ''2024-01-01T03:00:00Z'' = Some 1704078000000"
    and n: "now sampleClock = 1704076200000"
    by (simp_all add: sampleClock_def sampleParse_def)
  have a: "now sampleClock - 1704078000000 \<le> now sampleClock - 1704074400000"
    and b: "now sampleClock - 1704074400000 \<le> now sampleClock - 1704067200000"
    by simp_all
  show ?thesis
    using computeUptime_clamped_format_monotonic[OF p3 p2 a]
      computeUptime_clamped_format_monotonic[OF p2 p0 b]
      computeUptime_clamped_format_monotonic[OF p0 p0 order_refl]
    by (simp add: n)
qed

section \<open>Properties of the settings merge\<close>

lemma field_update: "field (AList.update k v obj) k' = (if k' = k then v else field obj k')"
  by (simp add: field_def update_conv')



lemma field_assign_fold:
  "field (foldl (\<lambda>t k. AList.update k (field src k) t) t ks) k =
     (if k \<in> set ks then field src k else field t k)"
  by (induction ks arbitrary: t) (auto simp: field_update)

lemma field_objectAssign:
  "field (objectAssign t src) k = (if k \<in> fst ` set src then field src k else field t k)"
  by (simp add: objectAssign_def field_assign_fold)

lemma platformObj_update:
  "platformObj (AList.update k obj st) p = (if p = k then obj else platformObj st p)"
  by (simp add: platformObj_def update_conv')

lemma map_of_mergeStep:
  "map_of (mergeStep nd m k) p =
     (if p = k then Some (objectAssign (platformObj m k) (platformObj nd k)) else map_of m p)"
  by (simp add: mergeStep_def update_conv')

lemma platformObj_mergeStep:
  "platformObj (mergeStep nd m k) p =
     (if p = k then objectAssign (platformObj m k) (platformObj nd k) else platformObj m p)"
  by (simp add: mergeStep_def platformObj_update)

lemma merge_fold_unmentioned:
  "p \<notin> set ks \<Longrightarrow> map_of (foldl (mergeStep nd) m ks) p = map_of m p"
  by (induction ks arbitrary: m) (auto simp: map_of_mergeStep)

lemma merge_fold_field_kept:
  "f \<notin> fst ` set (platformObj nd p) \<Longrightarrow>
     field (platformObj (foldl (mergeStep nd) m ks) p) f = field (platformObj m p) f"
  by (induction ks arbitrary: m) (auto simp: platformObj_mergeStep field_objectAssign)

lemma merge_fold_field_set_keep:
  "f \<in> fst ` set (platformObj nd p) \<Longrightarrow> field (platformObj m p) f = field (platformObj nd p) f \<Longrightarrow>
     field (platformObj (foldl (mergeStep nd) m ks) p) f = field (platformObj nd p) f"
proof (induction ks arbitrary: m)
  case Nil
  then show ?case by simp
next
  case (Cons k ks)
  have "field (platformObj (mergeStep nd m k) p) f = field (platformObj nd p) f"
    using Cons.prems by (cases "p = k") (simp_all add: platformObj_mergeStep field_objectAssign)
  then show ?case using Cons.IH[OF Cons.prems(1)] by simp
qed

lemma merge_fold_field_set:
  "p \<in> set ks \<Longrightarrow> f \<in> fst ` set (platformObj nd p) \<Longrightarrow>
     field (platformObj (foldl (mergeStep nd) m ks) p) f = field (platformObj nd p) f"
proof (induction ks arbitrary: m)
  case Nil
  then show ?case by simp
next
  case (Cons k ks)
  show ?case
  proof (cases "k = p")
    case True
    have "field (platformObj (mergeStep nd m p) p) f = field (platformObj nd p) f"
      using Cons.prems(2) by (simp add: platformObj_mergeStep field_objectAssign)
    then show ?thesis
      using True Cons.prems(2) by (simp add: merge_fold_field_set_keep)
  next
    case False
    then have "p \<in> set ks" using Cons.prems(1) by simp
    then show ?thesis using Cons.IH Cons.prems(2) by simp
  qed
qed

lemma mergeSettings_fst:
  "fst (mergeSettings nd w) = foldl (mergeStep nd) (storedSettings w) (map fst nd)"
  by (simp add: mergeSettings_def Let_def)

lemma mergeSettings_snd:
  "snd (mergeSettings nd w) = w\<lparr>storage := (storage w)\<lparr>streamtime := Some (fst (mergeSettings nd w))\<rparr>\<rparr>"
  by (simp add: mergeSettings_def Let_def)


text \<open>
  C9. A write through \<^verbatim>\<open>mergeSettings\<close> stores the merged record and leaves the live
  snapshot alone; a platform that the new data does not mention keeps its stored object;
  within any platform, a field that the new data does not give keeps its stored value; and
  a field that the new data gives takes the new value. In the example, saving
  \<^verbatim>\<open>{twitch: {channels: [...]}}\<close> over \<^verbatim>\<open>{twitch: {clientId: "x"}, kick: {...}}\<close> keeps
  \<^verbatim>\<open>kick\<close> and \<^verbatim>\<open>twitch.clientId\<close> and stores the new channels.
\<close>

theorem mergeSettings_frame:
  "streamtime (storage (snd (mergeSettings newData w))) = Some (fst (mergeSettings newData w))
   \<and> streamtime_live (storage (snd (mergeSettings newData w))) = streamtime_live (storage w)
   \<and> (\<forall>p. p \<notin> fst ` set newData \<longrightarrow>
         map_of (fst (mergeSettings newData w)) p = map_of (storedSettings w) p)
   \<and> (\<forall>p f. f \<notin> fst ` set (platformObj newData p) \<longrightarrow>
         field (platformObj (fst (mergeSettings newData w)) p) f
           = field (platformObj (storedSettings w) p) f)
   \<and> (\<forall>p f. p \<in> fst ` set newData \<and> f \<in> fst ` set (platformObj newData p) \<longrightarrow>
         field (platformObj (fst (mergeSettings newData w)) p) f = field (platformObj newData p) f)"
  by (simp add: mergeSettings_snd mergeSettings_fst merge_fold_unmentioned merge_fold_field_kept
      merge_fold_field_set)

theorem mergeSettings_frame_witness:
  "map_of (fst (mergeSettings [(''twitch'', [(''channels'', Arr [Obj [(''login'', Str ''alice'')]])])]
                  mergeExample)) ''kick''
     = Some [(''clientId'', Str ''k''), (''channels'', Arr [Obj [(''id'', Num 7)]])]
   \<and> field (platformObj (fst (mergeSettings
              [(''twitch'', [(''channels'', Arr [Obj [(''login'', Str ''alice'')]])])]
              mergeExample)) ''twitch'') ''clientId'' = Str ''x''
   \<and> field (platformObj (fst (mergeSettings
              [(''twitch'', [(''channels'', Arr [Obj [(''login'', Str ''alice'')]])])]
              mergeExample)) ''twitch'') ''channels'' = Arr [Obj [(''login'', Str ''alice'')]]"
proof -
  let ?nd = "[(''twitch'', [(''channels'', Arr [Obj [(''login'', Str ''alice'')]])])]"
  have st: "storedSettings mergeExample = [(''twitch'', [(''clientId'', Str ''x'')]),
      (''kick'', [(''clientId'', Str ''k''), (''channels'', Arr [Obj [(''id'', Num 7)]])])]"
    by (simp add: mergeExample_def storedSettings_def)
  have a: "''kick'' \<notin> fst ` set ?nd" by simp
  have b: "''clientId'' \<notin> fst ` set (platformObj ?nd ''twitch'')"
    by (simp add: platformObj_def)
  have c: "''twitch'' \<in> fst ` set ?nd \<and> ''channels'' \<in> fst ` set (platformObj ?nd ''twitch'')"
    by (simp add: platformObj_def)
  from mergeSettings_frame[of ?nd mergeExample] a b c
  have "map_of (fst (mergeSettings ?nd mergeExample)) ''kick'' = map_of (storedSettings mergeExample) ''kick''"
    and "field (platformObj (fst (mergeSettings ?nd mergeExample)) ''twitch'') ''clientId''
           = field (platformObj (storedSettings mergeExample) ''twitch'') ''clientId''"
    and "field (platformObj (fst (mergeSettings ?nd mergeExample)) ''twitch'') ''channels''
           = field (platformObj ?nd ''twitch'') ''channels''"
    by blast+
  then show ?thesis by (simp add: st platformObj_def field_def)
qed

section \<open>Properties of the durable settings record\<close>

lemma noAccessToken_Nil: "noAccessToken []"
  by (simp add: noAccessToken_def)












lemma mergeSettings_pair:
  "mergeSettings nd w = (m, w') \<Longrightarrow> m = fst (mergeSettings nd w) \<and> w' = snd (mergeSettings nd w)"
  by simp



lemma getProp_eq: "getProp v k = (if nullish v then Inl TypeError else Inr (getPropD v k))"
  by (cases v) (simp_all add: nullish_def getPropD_def)

lemma getPropD_nullish: "nullish v \<Longrightarrow> getPropD v k = Undefined"
  by (auto simp: nullish_def getPropD_def)

lemma setCookie_Str:
  "truthy v \<Longrightarrow> setAccessTokenCookie url name v w =
     (if isStr v then (Inr (), w\<lparr>cookies := (cookies w)((url, name) \<mapsto> toStr v)\<rparr>)
      else (Inl TypeError, w))"
  by (cases v) (simp_all add: setAccessTokenCookie_def js_or_def isStr_def)

lemma refreshTwitchToken_eq:
  "refreshTwitchToken cid cs rt w =
     (let req = TwitchTokenRefresh rt cid cs; w1 = snd (fetch req w); data = nextBody w req;
          tok = getPropD data ''access_token''
      in if granted w req then
           (tok, snd (mergeSettings
                   [(''twitch'', [(''refreshToken'', js_or (getPropD data ''refresh_token'') rt)])]
                   (w1\<lparr>cookies := (cookies w1)((''https://api.twitch.tv/'', ''twitch_access_token'')
                                        \<mapsto> toStr tok)\<rparr>)))
         else (Null, w1))"
proof (cases "server w (length (fetched w)) (TwitchTokenRefresh rt cid cs)")
  case (Inl e)
  then show ?thesis
    by (simp add: refreshTwitchToken_def refreshTwitchToken_try_def fetch_def granted_def Let_def)
next
  case (Inr resp)
  obtain status body where resp: "resp = Response status body" by (cases resp)
  show ?thesis
  proof (cases body)
    case None
    then show ?thesis using Inr resp
      by (simp add: refreshTwitchToken_def refreshTwitchToken_try_def fetch_def granted_def Let_def)
  next
    case (Some data)
    show ?thesis
    proof (cases "ok status \<and> truthy (getPropD data ''access_token'')")
      case False
      then show ?thesis using Inr resp Some
        by (auto simp: refreshTwitchToken_def refreshTwitchToken_try_def fetch_def granted_def
            Let_def getProp_eq getPropD_nullish)
    next
      case True
      then have nn: "\<not> nullish data" using getPropD_nullish[of data "''access_token''"] by auto
      show ?thesis using Inr resp Some True nn
        by (simp add: refreshTwitchToken_def refreshTwitchToken_try_def fetch_def granted_def
            Let_def getProp_eq setCookie_Str nextBody_def split: prod.splits)
    qed
  qed
qed


lemma refreshKickToken_eq:
  "refreshKickToken cid cs rt w =
     (if \<not> truthy cid \<or> \<not> truthy cs \<or> \<not> truthy rt then (Inr Null, w)
      else if \<not> isStr cid \<or> \<not> isStr rt then (Inl TypeError, w)
      else
       (let req = KickTokenRefresh rt cid cs; w1 = snd (fetch req w); data = nextBody w req;
            tok = getPropD data ''access_token''
        in if granted w req then
             (Inr tok, snd (mergeSettings
                     [(''kick'', [(''refreshToken'', js_or (getPropD data ''refresh_token'') rt)])]
                     (w1\<lparr>cookies := (cookies w1)((''https://kick.com/'', ''kick_access_token'')
                                          \<mapsto> toStr tok)\<rparr>)))
           else (Inr Null, w1)))"
proof (cases "\<not> truthy cid \<or> \<not> truthy cs \<or> \<not> truthy rt \<or> \<not> isStr cid \<or> \<not> isStr rt")
  case True
  then show ?thesis by (auto simp: refreshKickToken_def)
next
  case pre: False
  show ?thesis
  proof (cases "server w (length (fetched w)) (KickTokenRefresh rt cid cs)")
    case (Inl e)
    then show ?thesis using pre
      by (simp add: refreshKickToken_def refreshKickToken_try_def fetch_def granted_def Let_def)
  next
    case (Inr resp)
    obtain status body where resp: "resp = Response status body" by (cases resp)
    show ?thesis
    proof (cases body)
      case None
      then show ?thesis using Inr resp pre
        by (simp add: refreshKickToken_def refreshKickToken_try_def fetch_def granted_def Let_def)
    next
      case (Some data)
      show ?thesis
      proof (cases "ok status \<and> truthy (getPropD data ''access_token'')")
        case False
        then show ?thesis using Inr resp Some pre
          by (auto simp: refreshKickToken_def refreshKickToken_try_def fetch_def granted_def
              Let_def getProp_eq getPropD_nullish)
      next
        case True
        then have nn: "\<not> nullish data" using getPropD_nullish[of data "''access_token''"] by auto
        show ?thesis using Inr resp Some True nn pre
          by (simp add: refreshKickToken_def refreshKickToken_try_def fetch_def granted_def
              Let_def getProp_eq setCookie_Str nextBody_def split: prod.splits)
      qed
    qed
  qed
qed












section \<open>Properties of the notification differ\<close>

lemma foldl_notify:
  assumes "\<And>w s. step w s = notify (key s) (title s) (msg s) w"
  shows "foldl step w xs = w\<lparr>notifications := notifications w
           @ map (\<lambda>s. (key s, title s, msg s)) (filter (\<lambda>s. key s \<notin> previousLiveChannels w) xs)\<rparr>"
proof (induction xs arbitrary: w)
  case Nil
  show ?case by simp
next
  case (Cons x xs)
  have step: "foldl step w (x # xs) = foldl step (notify (key x) (title x) (msg x) w) xs"
    by (simp only: foldl_Cons assms[of w x])
  show ?case
  proof (cases "key x \<in> previousLiveChannels w")
    case True
    then show ?thesis unfolding step by (simp add: notify_def Cons.IH)
  next
    case False
    then show ?thesis unfolding step by (simp add: notify_def Cons.IH)
  qed
qed

lemma checkLiveChannels_notifications:
  "notifications (checkLiveChannels w) = notifications w
     @ map (\<lambda>s. (twitchKey s, toStr (field s ''display_name'') @ '' is live on Twitch!'', field s ''title''))
         (filter (\<lambda>s. twitchKey s \<notin> previousLiveChannels w) (twitch (liveData w)))
     @ map (\<lambda>s. (kickKey s, toStr (field s ''slug'') @ '' is live on Kick!'', field s ''title''))
         (filter (\<lambda>s. kickKey s \<notin> previousLiveChannels w) (kick (liveData w)))
     @ map (\<lambda>s. (youtubeKey s, ''YouTube Live: '' @ toStr (field s ''title''),
                  Str ''A subscribed channel just went live!''))
         (filter (\<lambda>s. youtubeKey s \<notin> previousLiveChannels w) (youtube (liveData w)))"
  by (simp add: checkLiveChannels_def Let_def
      foldl_notify[of notifyTwitch twitchKey, OF notifyTwitch_def]
      foldl_notify[of notifyKick kickKey, OF notifyKick_def]
      foldl_notify[of notifyYouTube youtubeKey, OF notifyYouTube_def])

lemma checkLiveChannels_previous:
  "previousLiveChannels (checkLiveChannels w) = currentLiveIds (liveData w)"
  by (simp add: checkLiveChannels_def Let_def)

lemma checkLiveChannels_storage:
  "storage (checkLiveChannels w) = storage w"
  by (simp add: checkLiveChannels_def Let_def
      foldl_notify[of notifyTwitch twitchKey, OF notifyTwitch_def]
      foldl_notify[of notifyKick kickKey, OF notifyKick_def]
      foldl_notify[of notifyYouTube youtubeKey, OF notifyYouTube_def])

lemma liveData_withLive: "liveData (withLive l w) = l"
  by (simp add: liveData_def withLive_def)

lemma previous_withLive: "previousLiveChannels (withLive l w) = previousLiveChannels w"
  by (simp add: withLive_def)

lemma count_list_filter:
  "count_list (filter P xs) k = (if P k then count_list xs k else 0)"
  by (induction xs) auto

lemma created_ids:
  "map fst (created w)
     = filter (\<lambda>k. k \<notin> previousLiveChannels w) (platformKeys (liveData w))"
  by (simp add: created_def checkLiveChannels_notifications platformKeys_def filter_map o_def
      twitchKey_def kickKey_def youtubeKey_def)

lemma currentLiveIds_platformKeys: "currentLiveIds l = set (platformKeys l)"
  by (simp add: currentLiveIds_def platformKeys_def twitchKey_def kickKey_def youtubeKey_def)

lemma created_count:
  "count_list (map fst (created w)) k
     = (if k \<in> previousLiveChannels w then 0 else count_list (platformKeys (liveData w)) k)"
  by (simp add: created_ids count_list_filter)

text \<open>
  C5. A run of \<^verbatim>\<open>checkLiveChannels\<close> calls \<^verbatim>\<open>browser.notifications.create\<close> once
  for every entry of the stored snapshot whose platform key (\<^verbatim>\<open>twitch-<user_id>\<close>,
  \<^verbatim>\<open>kick-<id>\<close>, \<^verbatim>\<open>yt-<channelId>\<close>) is not in \<^verbatim>\<open>previousLiveChannels\<close>, in the
  order of the snapshot, with that key as the notification id; it keeps the earlier
  notifications and leaves \<^verbatim>\<open>previousLiveChannels\<close> equal to the set of the snapshot's
  keys, whatever was notified. So the number of calls for a key is the number of entries
  the snapshot lists under it, or none when the key was live at the last check; a snapshot
  that lists each key once gives each new key one call. A key that is live at one check
  gets no call at the next check; a key that is absent from the snapshot of one check gets,
  at the following check, as many calls as that check's snapshot lists it. Keys of
  different platforms differ, and two keys of one platform are equal only for equal ids.
\<close>

theorem notification_per_new_entry:
  "map fst (created w)
     = filter (\<lambda>k. k \<notin> previousLiveChannels w) (platformKeys (liveData w))
   \<and> previousLiveChannels (checkLiveChannels w) = set (platformKeys (liveData w))
   \<and> notifications (checkLiveChannels w) = notifications w @ created w
   \<and> count_list (map fst (created w)) k
       = (if k \<in> previousLiveChannels w then 0 else count_list (platformKeys (liveData w)) k)
   \<and> (distinct (platformKeys (liveData w)) \<longrightarrow> distinct (map fst (created w)))
   \<and> (k \<in> set (platformKeys (liveData w)) \<longrightarrow>
         count_list (map fst (created (withLive l2 (checkLiveChannels w)))) k = 0)
   \<and> (k \<notin> set (platformKeys l2) \<longrightarrow>
         count_list (map fst (created (withLive l3 (checkLiveChannels
                                         (withLive l2 (checkLiveChannels w)))))) k
           = count_list (platformKeys l3) k)
   \<and> twitchKey s \<noteq> kickKey s' \<and> twitchKey s \<noteq> youtubeKey s' \<and> kickKey s \<noteq> youtubeKey s'
   \<and> (twitchKey s = twitchKey s') = (toStr (field s ''user_id'') = toStr (field s' ''user_id''))
   \<and> (kickKey s = kickKey s') = (toStr (field s ''id'') = toStr (field s' ''id''))
   \<and> (youtubeKey s = youtubeKey s')
       = (toStr (field s ''channelId'') = toStr (field s' ''channelId''))"
proof -
  have a: "notifications (checkLiveChannels w) = notifications w @ created w"
    by (simp add: created_def checkLiveChannels_notifications)
  have b: "previousLiveChannels (checkLiveChannels w) = set (platformKeys (liveData w))"
    by (simp add: checkLiveChannels_previous currentLiveIds_platformKeys)
  have c: "distinct (platformKeys (liveData w)) \<longrightarrow> distinct (map fst (created w))"
    by (simp add: created_ids)
  have d: "k \<in> set (platformKeys (liveData w)) \<longrightarrow>
         count_list (map fst (created (withLive l2 (checkLiveChannels w)))) k = 0"
    by (simp add: created_count previous_withLive b)
  have e: "k \<notin> set (platformKeys l2) \<longrightarrow>
         count_list (map fst (created (withLive l3 (checkLiveChannels
                                         (withLive l2 (checkLiveChannels w)))))) k
           = count_list (platformKeys l3) k"
    by (simp add: created_count previous_withLive liveData_withLive checkLiveChannels_previous
        currentLiveIds_platformKeys)
  have f: "twitchKey s \<noteq> kickKey s' \<and> twitchKey s \<noteq> youtubeKey s' \<and> kickKey s \<noteq> youtubeKey s'
   \<and> (twitchKey s = twitchKey s') = (toStr (field s ''user_id'') = toStr (field s' ''user_id''))
   \<and> (kickKey s = kickKey s') = (toStr (field s ''id'') = toStr (field s' ''id''))
   \<and> (youtubeKey s = youtubeKey s')
       = (toStr (field s ''channelId'') = toStr (field s' ''channelId''))"
    by (simp add: twitchKey_def kickKey_def youtubeKey_def)
  from created_ids[of w] b a created_count[of w k] c d e f show ?thesis by blast
qed

theorem notification_per_new_entry_witness:
  "map fst (created dedupExample) = [''twitch-2'']
   \<and> previousLiveChannels (checkLiveChannels dedupExample) = {''twitch-1'', ''twitch-2''}
   \<and> distinct (map fst (created dedupExample))
   \<and> count_list (map fst (created dedupExample)) ''twitch-2'' = 1
   \<and> count_list (map fst (created dedupExample)) ''twitch-1'' = 0
   \<and> count_list (map fst (created (withLive (liveData dedupExample)
                                       (checkLiveChannels dedupExample)))) ''twitch-2'' = 0
   \<and> count_list (map fst (created (withLive (liveData dedupExample)
        (checkLiveChannels (withLive \<lparr> twitch = [], kick = [], youtube = [] \<rparr>
           (checkLiveChannels dedupExample)))))) ''twitch-2'' = 1"
proof -
  let ?none = "\<lparr> twitch = [], kick = [], youtube = [] \<rparr>"
  have keys: "platformKeys (liveData dedupExample) = [''twitch-1'', ''twitch-2'']"
    by (simp add: dedupExample_def sampleWorld_def liveData_def platformKeys_def field_def)
  have prev: "previousLiveChannels dedupExample = {''twitch-1''}"
    by (simp add: dedupExample_def sampleWorld_def)
  have none: "platformKeys ?none = []"
    by (simp add: platformKeys_def)
  note stay = notification_per_new_entry[where w=dedupExample and k="''twitch-2''"
      and ?l2.0="liveData dedupExample" and ?l3.0="liveData dedupExample"]
  note again = notification_per_new_entry[where w=dedupExample and k="''twitch-2''"
      and ?l2.0="?none" and ?l3.0="liveData dedupExample"]
  note other = notification_per_new_entry[where w=dedupExample and k="''twitch-1''"]
  have a: "map fst (created dedupExample) = [''twitch-2'']"
    and b: "previousLiveChannels (checkLiveChannels dedupExample) = {''twitch-1'', ''twitch-2''}"
    and c: "distinct (map fst (created dedupExample))"
    and d: "count_list (map fst (created dedupExample)) ''twitch-2'' = 1"
    and e: "count_list (map fst (created (withLive (liveData dedupExample)
                                       (checkLiveChannels dedupExample)))) ''twitch-2'' = 0"
    using stay by (simp_all add: keys prev)
  have f: "count_list (map fst (created dedupExample)) ''twitch-1'' = 0"
    using other by (simp add: keys prev)
  have g: "count_list (map fst (created (withLive (liveData dedupExample)
        (checkLiveChannels (withLive ?none (checkLiveChannels dedupExample)))))) ''twitch-2'' = 1"
    using again by (simp add: keys none)
  from a b c d f e g show ?thesis by blast
qed

text \<open>
  The number of calls for one key is not bounded by one: with the YouTube channel
  \<^verbatim>\<open>UC1\<close> configured twice, \<^verbatim>\<open>checkYouTube\<close> returns its entry twice, \<^verbatim>\<open>pollAll\<close>
  stores both, and the next run of \<^verbatim>\<open>checkLiveChannels\<close> calls
  \<^verbatim>\<open>browser.notifications.create\<close> twice with the id \<^verbatim>\<open>yt-UC1\<close>.
\<close>

theorem one_notification_per_channel_counterexample:
  "map_option (youtube \<circ> liveData \<circ> snd) (pollAll 1 duplicateYouTube)
     = Some [sampleYouTubeEntry, sampleYouTubeEntry]
   \<and> map_option (map fst \<circ> created \<circ> snd) (pollAll 1 duplicateYouTube)
     = Some [''twitch-42'', ''kick-7'', ''yt-UC1'', ''yt-UC1'']
   \<and> count_list (map fst (created (withLive
          \<lparr> twitch = [], kick = [], youtube = [sampleYouTubeEntry, sampleYouTubeEntry] \<rparr>
          (sampleWorld (sampleServer 0))))) ''yt-UC1'' = 2"
proof -
  have "map_option (youtube \<circ> liveData \<circ> snd) (pollAll 1 duplicateYouTube)
     = Some [sampleYouTubeEntry, sampleYouTubeEntry]"
    by code_simp
  moreover have "map_option (map fst \<circ> created \<circ> snd) (pollAll 1 duplicateYouTube)
     = Some [''twitch-42'', ''kick-7'', ''yt-UC1'', ''yt-UC1'']"
    by code_simp
  moreover have "count_list (map fst (created (withLive
          \<lparr> twitch = [], kick = [], youtube = [sampleYouTubeEntry, sampleYouTubeEntry] \<rparr>
          (sampleWorld (sampleServer 0))))) ''yt-UC1'' = 2"
    by code_simp
  ultimately show ?thesis by blast
qed

text \<open>
  C10. When no snapshot is stored, or the stored snapshot has three empty lists,
  \<^verbatim>\<open>checkLiveChannels\<close> returns (it has no step that can throw on such a store),
  creates no notification, leaves the storage as it is and sets
  \<^verbatim>\<open>previousLiveChannels\<close> to the empty set.
\<close>

theorem first_run_no_notifications:
  assumes "streamtime_live (storage w) = None
     \<or> streamtime_live (storage w) = Some \<lparr> twitch = [], kick = [], youtube = [] \<rparr>"
  shows "notifications (checkLiveChannels w) = notifications w
     \<and> previousLiveChannels (checkLiveChannels w) = {}
     \<and> storage (checkLiveChannels w) = storage w"
proof -
  from assms have "liveData w = \<lparr> twitch = [], kick = [], youtube = [] \<rparr>"
    by (auto simp: liveData_def)
  then show ?thesis
    by (simp add: checkLiveChannels_notifications checkLiveChannels_previous
        checkLiveChannels_storage currentLiveIds_def)
qed


theorem first_run_no_notifications_witness:
  "notifications (checkLiveChannels (sampleWorld (sampleServer 0))) = []
   \<and> previousLiveChannels (checkLiveChannels (sampleWorld (sampleServer 0))) = {}
   \<and> notifications (checkLiveChannels (withLive \<lparr> twitch = [], kick = [], youtube = [] \<rparr> dedupExample)) = []
   \<and> previousLiveChannels (checkLiveChannels
        (withLive \<lparr> twitch = [], kick = [], youtube = [] \<rparr> dedupExample)) = {}"
proof -
  have a: "streamtime_live (storage (sampleWorld (sampleServer 0))) = None"
    by (simp add: sampleWorld_def)
  have b: "streamtime_live (storage (withLive \<lparr> twitch = [], kick = [], youtube = [] \<rparr> dedupExample))
      = Some \<lparr> twitch = [], kick = [], youtube = [] \<rparr>"
    by (simp add: withLive_def)
  have n: "notifications (sampleWorld (sampleServer 0)) = []"
    "notifications (withLive \<lparr> twitch = [], kick = [], youtube = [] \<rparr> dedupExample) = []"
    by (simp_all add: sampleWorld_def withLive_def dedupExample_def)
  show ?thesis
    using first_run_no_notifications[of "sampleWorld (sampleServer 0)"]
      first_run_no_notifications[of "withLive \<lparr> twitch = [], kick = [], youtube = [] \<rparr> dedupExample"]
      a b by (simp add: n)
qed

section \<open>Properties of the adapters' retry\<close>

lemma server_mergeSettings: "server (snd (mergeSettings nd w)) = server w"
  by (simp add: mergeSettings_snd)

lemma server_refreshTwitchToken: "server (snd (refreshTwitchToken cid cs rt w)) = server w"
  by (simp add: refreshTwitchToken_eq Let_def server_mergeSettings fetch_def)

lemma server_refreshKickToken: "server (snd (refreshKickToken cid cs rt w)) = server w"
  by (simp add: refreshKickToken_eq Let_def server_mergeSettings fetch_def)

lemma forbidding_grants_twitch:
  "server w = forbiddingServer \<Longrightarrow> fst (refreshTwitchToken cid cs rt w) = Str ''fresh''"
  by (simp add: refreshTwitchToken_eq Let_def granted_def nextBody_def forbiddingServer_def ok_def
      getPropD_def field_def isStr_def)

lemma forbidding_grants_kick:
  "server w = forbiddingServer \<Longrightarrow> isStr cid \<Longrightarrow> truthy cid \<Longrightarrow> truthy cs \<Longrightarrow> isStr rt \<Longrightarrow> truthy rt \<Longrightarrow>
     fst (refreshKickToken cid cs rt w) = Inr (Str ''kfresh'')"
  by (simp add: refreshKickToken_eq Let_def granted_def nextBody_def forbiddingServer_def ok_def
      getPropD_def field_def isStr_def)

lemma checkTwitch_never_returns:
  assumes "server w = forbiddingServer"
    and "truthy (field ts ''clientId'')" and "truthy (field ts ''accessToken'')"
    and "truthy (field ts ''channels'')"
    and "twitchIds (field ts ''channels'') = Inr ids" and "ids \<noteq> []"
  shows "checkTwitch n ts w = None"
  using assms
proof (induction n arbitrary: ts w)
  case 0
  show ?case by simp
next
  case (Suc n)
  let ?req = "TwitchStreams ids (field ts ''clientId'') (field ts ''accessToken'')"
  have "server w (length (fetched w)) ?req = Inr (Response 403 None)"
    by (simp add: Suc.prems(1) forbiddingServer_def)
  then obtain w1 where f: "fetch ?req w = (Inr (Response 403 None), w1)"
    and s1: "server w1 = forbiddingServer"
    using Suc.prems(1) by (simp add: fetch_def)
  obtain t w2 where R: "refreshTwitchToken (field ts ''clientId'') (field ts ''clientSecret'')
      (field ts ''refreshToken'') w1 = (t, w2)"
    by (cases "refreshTwitchToken (field ts ''clientId'') (field ts ''clientSecret'')
      (field ts ''refreshToken'') w1")
  have tok: "t = Str ''fresh''"
    using forbidding_grants_twitch[OF s1, of "field ts ''clientId''" "field ts ''clientSecret''"
        "field ts ''refreshToken''"] R by simp
  have s2: "server w2 = forbiddingServer"
    using server_refreshTwitchToken[of "field ts ''clientId''" "field ts ''clientSecret''"
        "field ts ''refreshToken''" w1] R s1 by simp
  have rec: "checkTwitch n (AList.update ''accessToken'' t ts) w2 = None"
    using Suc.prems by (intro Suc.IH[OF s2]) (simp_all add: field_update tok)
  show ?case
    using Suc.prems(2-6) rec by (simp add: f R tok)
qed

lemma checkKick_never_returns:
  assumes "server w = forbiddingServer"
    and "truthy (field ks ''channels'')"
    and "kickIds (field ks ''channels'') = Inr ids" and "ids \<noteq> []"
    and "isStr (field ks ''clientId'')" and "truthy (field ks ''clientId'')"
    and "truthy (field ks ''clientSecret'')"
    and "isStr (field ks ''refreshToken'')" and "truthy (field ks ''refreshToken'')"
  shows "checkKick n ks w = None"
  using assms
proof (induction n arbitrary: ks w)
  case 0
  show ?case by simp
next
  case (Suc n)
  let ?req = "KickChannels ids (if truthy (field ks ''accessToken'')
                               then Some (field ks ''accessToken'') else None)"
  have "server w (length (fetched w)) ?req = Inr (Response 403 None)"
    by (simp add: Suc.prems(1) forbiddingServer_def)
  then obtain w1 where f: "fetch ?req w = (Inr (Response 403 None), w1)"
    and s1: "server w1 = forbiddingServer"
    using Suc.prems(1) by (simp add: fetch_def)
  obtain r w2 where R: "refreshKickToken (field ks ''clientId'') (field ks ''clientSecret'')
      (field ks ''refreshToken'') w1 = (r, w2)"
    by (cases "refreshKickToken (field ks ''clientId'') (field ks ''clientSecret'')
      (field ks ''refreshToken'') w1")
  have tok: "r = Inr (Str ''kfresh'')"
    using forbidding_grants_kick[OF s1 Suc.prems(5,6,7,8,9)] R by simp
  have s2: "server w2 = forbiddingServer"
    using server_refreshKickToken[of "field ks ''clientId''" "field ks ''clientSecret''"
        "field ks ''refreshToken''" w1] R s1 by simp
  have rec: "checkKick n (AList.update ''accessToken'' (Str ''kfresh'') ks) w2 = None"
    using Suc.prems by (intro Suc.IH[OF s2]) (simp_all add: field_update)
  show ?case
    using Suc.prems(2-4) by (simp add: f R rec tok)
qed


text \<open>The sample runs of the adapters with remote services that answer straight away.\<close>

lemma sample_twitch_run:
  "map_option fst (checkTwitch 1 sampleTwitch (sampleWorld (sampleServer 0)))
     = Some (Inr [sampleTwitchEntry])"
  by code_simp

lemma sample_kick_run:
  "map_option fst (checkKick 1 sampleKick (sampleWorld (sampleServer 0)))
     = Some (Inr [sampleKickEntry])"
  by code_simp

lemma sample_youtube_run:
  "fst (checkYouTube sampleYouTube (sampleWorld (sampleServer 0))) = Inr [sampleYouTubeEntry]"
  by code_simp

lemma sampleTwitch_eq:
  "sampleTwitch = [(''clientId'', Str ''c''), (''clientSecret'', Str ''s''),
      (''refreshToken'', Str ''r0''),
      (''channels'', Arr [Obj [(''id'', Str ''42''), (''login'', Str ''alice'')]]),
      (''accessToken'', Str ''expired'')]"
  by code_simp

lemma loadSettings_server: "loadSettings (sampleWorld srv) = loadSettings (sampleWorld srv')"
  by (simp add: loadSettings_def sampleWorld_def storedSettings_def getAccessTokenCookie_def)


text \<open>
  With remote services that refuse every streams query and grant every refresh, the
  call of \<^verbatim>\<open>checkTwitch\<close> that \<^verbatim>\<open>pollAll\<close> makes does not return, whatever the
  bound on the depth of its retries.
\<close>

lemma twitch_retry_unbounded:
  "\<forall>n. checkTwitch n sampleTwitch (sampleWorld forbiddingServer) = None"
proof
  fix n
  have ids: "twitchIds (field sampleTwitch ''channels'') = Inr [Str ''42'']"
    by (simp add: sampleTwitch_eq field_def twitchIds_def mapArr_def twitchId_def bindE_def
        nullish_def getPropD_def js_or_def)
  show "checkTwitch n sampleTwitch (sampleWorld forbiddingServer) = None"
    by (rule checkTwitch_never_returns[OF _ _ _ _ ids])
      (simp_all add: sampleWorld_def sampleTwitch_eq field_def)
qed

text \<open>
  C1. On a 401 or 403 the adapters are to refresh and retry once, a second refusal giving
  the empty list. The retry is a call of the adapter itself, which handles a refusal as
  the first call did: with remote services that refuse the first two streams (channels)
  queries, \<^verbatim>\<open>checkTwitch\<close> and \<^verbatim>\<open>checkKick\<close> refresh twice, query three times and
  return the live entry of the third answer.
\<close>

theorem retry_repeats_after_second_refusal:
  "map_option (\<lambda>(r, w). (r, refreshCount w))
      (checkTwitch 3 sampleTwitch (sampleWorld (sampleServer 4)))
     = Some (Inr [sampleTwitchEntry], 2)
   \<and> map_option (\<lambda>(r, w). (r, refreshCount w))
      (checkKick 3 sampleKick (sampleWorld (sampleServer 4)))
     = Some (Inr [sampleKickEntry], 2)"
proof -
  have "map_option (\<lambda>(r, w). (r, refreshCount w))
      (checkTwitch 3 sampleTwitch (sampleWorld (sampleServer 4)))
     = Some (Inr [sampleTwitchEntry], 2)"
    by code_simp
  moreover have "map_option (\<lambda>(r, w). (r, refreshCount w))
      (checkKick 3 sampleKick (sampleWorld (sampleServer 4)))
     = Some (Inr [sampleKickEntry], 2)"
    by code_simp
  ultimately show ?thesis by (rule conjI)
qed

section \<open>Properties of the poll orchestrator\<close>

lemma pollAll_no_error: "pollAll n w \<noteq> Some (Inl e, w')"
  by (simp add: pollAll_def Let_def split: option.splits prod.splits)

text \<open>
  C2. When the three adapter calls of a poll complete, each by returning a list or by
  throwing, \<^verbatim>\<open>pollAll\<close> returns normally and the snapshot it stores holds, for each
  platform, the list its adapter returned, or the empty list when the adapter threw: an
  exception of one adapter leaves the other two results as they are. For any run,
  \<^verbatim>\<open>pollAll\<close> does not end with an exception.
\<close>

theorem pollAll_isolates_adapter_failure:
  assumes "checkTwitch n (platformObj (loadSettings w) ''twitch'') w = Some (r1, w1)"
    and "checkKick n (platformObj (loadSettings w) ''kick'') w1 = Some (r2, w2)"
    and "checkYouTube (platformObj (loadSettings w) ''youtube'') w2 = (r3, w3)"
  shows "(\<exists>w'. pollAll n w = Some (Inr (), w')
            \<and> streamtime_live (storage w')
                = Some \<lparr> twitch = (case r1 of Inl e \<Rightarrow> [] | Inr entries \<Rightarrow> entries),
                         kick = (case r2 of Inl e \<Rightarrow> [] | Inr entries \<Rightarrow> entries),
                         youtube = (case r3 of Inl e \<Rightarrow> [] | Inr entries \<Rightarrow> entries) \<rparr>)
         \<and> (\<forall>e w'. pollAll n w \<noteq> Some (Inl e, w'))"
  using assms
  by (cases r1; cases r2; cases r3) (simp_all add: pollAll_def Let_def caught_def)

lemma brokenTwitch_throws: "checkTwitch 1 (platformObj (loadSettings brokenTwitch) ''twitch'') brokenTwitch = Some (Inl TypeError, brokenTwitch)"
  by (simp add: brokenTwitch_def loadSettings_def storedSettings_def sampleWorld_def sampleSettings_def
      platformObj_def getAccessTokenCookie_def sampleCookies_def Let_def field_def
      twitchIds_def mapArr_def twitchId_def bindE_def nullish_def)

lemma brokenTwitch_kick_run: "map_option fst (checkKick 1 (platformObj (loadSettings brokenTwitch) ''kick'') brokenTwitch)
   = Some (Inr [[(''id'', Num 7), (''slug'', Str ''bob''),
         (''title'', Str ''Cooking''), (''game'', Str ''IRL''),
         (''viewers'', Num 3),
         (''started_at'', Str ''2024-01-01T02:00:00Z''),
         (''uptime'', Str ''30m''),
         (''url'', Str ''https://kick.com/bob'')]])"
  by code_simp


theorem pollAll_isolates_adapter_failure_witness:
  "map_option (\<lambda>(r, w'). (r, streamtime_live (storage w'))) (pollAll 1 brokenTwitch)
     = Some (Inr (), Some \<lparr> twitch = [],
          kick = [[(''id'', Num 7), (''slug'', Str ''bob''),
                   (''title'', Str ''Cooking''), (''game'', Str ''IRL''),
                   (''viewers'', Num 3),
                   (''started_at'', Str ''2024-01-01T02:00:00Z''),
                   (''uptime'', Str ''30m''),
                   (''url'', Str ''https://kick.com/bob'')]],
          youtube = [[(''channelId'', Str ''UC1''), (''title'', Str ''Concert''),
                      (''url'', Str ''https://www.youtube.com/watch?v=v1''),
                      (''started_at'', Str ''2024-01-01T02:00:00Z''),
                      (''duration'', Str ''30m'')]] \<rparr>)"
proof -
  let ?st = "loadSettings brokenTwitch"
  obtain r2 w2 where ki: "checkKick 1 (platformObj ?st ''kick'') brokenTwitch = Some (r2, w2)"
    using brokenTwitch_kick_run by (cases "checkKick 1 (platformObj ?st ''kick'') brokenTwitch") auto
  obtain r3 w3 where yt: "checkYouTube (platformObj ?st ''youtube'') w2 = (r3, w3)"
    by (cases "checkYouTube (platformObj ?st ''youtube'') w2")
  have r2: "r2 = Inr [[(''id'', Num 7), (''slug'', Str ''bob''),
                   (''title'', Str ''Cooking''), (''game'', Str ''IRL''),
                   (''viewers'', Num 3),
                   (''started_at'', Str ''2024-01-01T02:00:00Z''),
                   (''uptime'', Str ''30m''),
                   (''url'', Str ''https://kick.com/bob'')]]"
    using brokenTwitch_kick_run ki by simp
  have "map_option (\<lambda>(r, w'). (r, youtube (liveData w'))) (pollAll 1 brokenTwitch)
     = Some (Inr (), [[(''channelId'', Str ''UC1''), (''title'', Str ''Concert''),
                      (''url'', Str ''https://www.youtube.com/watch?v=v1''),
                      (''started_at'', Str ''2024-01-01T02:00:00Z''),
                      (''duration'', Str ''30m'')]])"
    by code_simp
  then have r3: "(case r3 of Inl e \<Rightarrow> [] | Inr entries \<Rightarrow> entries) = [[(''channelId'', Str ''UC1''), (''title'', Str ''Concert''),
                      (''url'', Str ''https://www.youtube.com/watch?v=v1''),
                      (''started_at'', Str ''2024-01-01T02:00:00Z''),
                      (''duration'', Str ''30m'')]]"
    using pollAll_isolates_adapter_failure[OF brokenTwitch_throws ki yt]
    by (auto simp: liveData_def)
  show ?thesis
    using pollAll_isolates_adapter_failure[OF brokenTwitch_throws ki yt] r2 r3 by auto
qed

text \<open>
  When the three adapter calls complete, the stored snapshot is replaced by the new one,
  whatever was stored and whatever the lists are, and the time of the poll is stored.
\<close>

lemma pollAll_writes_snapshot_and_timestamp:
  assumes "checkTwitch n (platformObj (loadSettings w) ''twitch'') w = Some (r1, w1)"
    and "checkKick n (platformObj (loadSettings w) ''kick'') w1 = Some (r2, w2)"
    and "checkYouTube (platformObj (loadSettings w) ''youtube'') w2 = (r3, w3)"
  shows "\<exists>w'. pollAll n w = Some (Inr (), w')
            \<and> streamtime_live (storage w')
                = Some \<lparr> twitch = caught [] r1, kick = caught [] r2, youtube = caught [] r3 \<rparr>
            \<and> streamtime_last_poll (storage w') = Some (nowIso w3)
            \<and> streamtime (storage w') = streamtime (storage w3)"
  using assms by (simp add: pollAll_def Let_def nowIso_def)

text \<open>
  Without a 401 or 403 the adapters do not call themselves: each returns within one call,
  and the poll stores its snapshot and its time.
\<close>

lemma checkTwitch_returns:
  assumes "neverRefuses w"
  shows "\<exists>r w1. checkTwitch (Suc n) ts w = Some (r, w1) \<and> server w1 = server w"
proof -
  have a: "\<And>k req body. server w k req \<noteq> Inr (Response 401 body)"
    and b: "\<And>k req body. server w k req \<noteq> Inr (Response 403 body)"
    using assms by (auto simp: neverRefuses_def)
  show ?thesis
    using a b
    by (auto simp: fetch_def split: sum.splits response.splits option.splits prod.splits)
qed

lemma checkKick_returns:
  assumes "neverRefuses w"
  shows "\<exists>r w1. checkKick (Suc n) ks w = Some (r, w1) \<and> server w1 = server w"
proof -
  have a: "\<And>k req body. server w k req \<noteq> Inr (Response 401 body)"
    and b: "\<And>k req body. server w k req \<noteq> Inr (Response 403 body)"
    using assms by (auto simp: neverRefuses_def)
  show ?thesis
    using a b
    by (auto simp: fetch_def split: sum.splits response.splits option.splits prod.splits)
qed

lemma pollAll_returns:
  assumes "neverRefuses w"
  shows "\<exists>w'. pollAll (Suc n) w = Some (Inr (), w')
     \<and> streamtime_live (storage w') \<noteq> None \<and> streamtime_last_poll (storage w') \<noteq> None"
proof -
  obtain r1 w1 where t: "checkTwitch (Suc n) (platformObj (loadSettings w) ''twitch'') w = Some (r1, w1)"
    and s1: "server w1 = server w"
    using checkTwitch_returns[OF assms] by blast
  have "neverRefuses w1" using assms s1 by (simp add: neverRefuses_def)
  then obtain r2 w2 where k: "checkKick (Suc n) (platformObj (loadSettings w) ''kick'') w1 = Some (r2, w2)"
    using checkKick_returns by blast
  obtain r3 w3 where y: "checkYouTube (platformObj (loadSettings w) ''youtube'') w2 = (r3, w3)"
    by (cases "checkYouTube (platformObj (loadSettings w) ''youtube'') w2")
  show ?thesis
    using pollAll_writes_snapshot_and_timestamp[OF t k y] by auto
qed

text \<open>
  C8. Every run of \<^verbatim>\<open>pollAll\<close> is to store the snapshot and the time. \<^verbatim>\<open>pollAll\<close>
  awaits \<^verbatim>\<open>checkTwitch\<close> before it writes: with remote services that refuse every streams
  query and grant every refresh, that call does not return, and the run of \<^verbatim>\<open>pollAll\<close>
  stores nothing, whatever the bound on the retries.
\<close>

theorem pollAll_never_returns:
  "\<forall>n. pollAll n (sampleWorld forbiddingServer) = None"
  using twitch_retry_unbounded
  by (simp add: pollAll_def Let_def sampleTwitch_def loadSettings_server[of forbiddingServer "sampleServer 0"])


section \<open>Shape of the adapters' entries\<close>

lemma mapE_all:
  assumes "\<And>x y. f x = Inr y \<Longrightarrow> P y"
  shows "mapE f xs = Inr ys \<Longrightarrow> list_all P ys"
  using assms by (induction xs arbitrary: ys) (auto split: sum.splits)

lemma filterE_subset: "filterE p xs = Inr ys \<Longrightarrow> set ys \<subseteq> set xs"
  by (induction xs arbitrary: ys) (auto split: sum.splits if_splits)

lemma twitchEntry_keys: "twitchEntry c s = Inr e \<Longrightarrow> map fst e = twitchEntryKeys"
  by (auto simp: twitchEntry_def twitchEntryKeys_def split: if_splits)

lemma kickEntry_keys: "map fst (kickEntry c ch) = kickEntryKeys"
  by (simp add: kickEntry_def kickEntryKeys_def)

lemma youtubeEntry_keys: "youtubeEntry c channelId j = Inr (Some e) \<Longrightarrow> map fst e = youtubeEntryKeys"
  by (auto simp: youtubeEntry_def youtubeEntryKeys_def bindE_def Let_def split: sum.splits if_splits)

lemma twitchEntries_keys:
  "twitchEntries c j = Inr es \<Longrightarrow> list_all (\<lambda>e. map fst e = twitchEntryKeys) es"
  by (auto simp: twitchEntries_def bindE_def mapArr_def split: sum.splits jsval.splits
      intro: mapE_all[where f="twitchEntry c"] twitchEntry_keys)

lemma kickEntries_keys:
  "kickEntries c j = Inr es \<Longrightarrow> list_all (\<lambda>e. map fst e = kickEntryKeys) es"
  by (auto simp: kickEntries_def bindE_def kickEntry_keys list_all_iff split: sum.splits jsval.splits)

lemma checkTwitch_keys:
  "checkTwitch n ts w = Some (Inr es, w') \<Longrightarrow> list_all (\<lambda>e. map fst e = twitchEntryKeys) es"
proof (induction n arbitrary: ts w es w')
  case 0
  then show ?case by simp
next
  case (Suc n)
  from Suc.prems show ?case
    by (auto split: if_splits sum.splits prod.splits response.splits option.splits
        dest: Suc.IH twitchEntries_keys)
qed

lemma checkKick_keys:
  "checkKick n ks w = Some (Inr es, w') \<Longrightarrow> list_all (\<lambda>e. map fst e = kickEntryKeys) es"
proof (induction n arbitrary: ks w es w')
  case 0
  then show ?case by simp
next
  case (Suc n)
  from Suc.prems show ?case
    by (auto split: if_splits sum.splits prod.splits response.splits option.splits
        dest: Suc.IH kickEntries_keys)
qed

lemma youtubeChannel_keys:
  "youtubeChannel k cid out w = (out', w') \<Longrightarrow> list_all (\<lambda>e. map fst e = youtubeEntryKeys) out \<Longrightarrow>
     list_all (\<lambda>e. map fst e = youtubeEntryKeys) out'"
  by (auto simp: youtubeChannel_def split: sum.splits prod.splits response.splits option.splits if_splits
      dest: youtubeEntry_keys)

lemma youtubeLoop_keys:
  "youtubeLoop k chs out w = (Inr es, w') \<Longrightarrow> list_all (\<lambda>e. map fst e = youtubeEntryKeys) out \<Longrightarrow>
     list_all (\<lambda>e. map fst e = youtubeEntryKeys) es"
proof (induction chs arbitrary: out w)
  case Nil
  then show ?case by simp
next
  case (Cons ch chs)
  show ?case
  proof (cases "nullish ch")
    case True
    then show ?thesis using Cons.prems by simp
  next
    case nn: False
    let ?cid = "js_or (getPropD ch ''id'') (js_or (getPropD ch ''channelId'') ch)"
    show ?thesis
    proof (cases "truthy ?cid")
      case False
      then show ?thesis using Cons.prems nn Cons.IH[of out w] by (simp add: Let_def)
    next
      case True
      obtain out' w1 where yc: "youtubeChannel k ?cid out w = (out', w1)"
        by (cases "youtubeChannel k ?cid out w")
      have "list_all (\<lambda>e. map fst e = youtubeEntryKeys) out'"
        by (rule youtubeChannel_keys[OF yc Cons.prems(2)])
      moreover have "youtubeLoop k chs out' w1 = (Inr es, w')"
        using Cons.prems(1) nn True yc by (simp add: Let_def)
      ultimately show ?thesis by (rule Cons.IH[rotated])
    qed
  qed
qed

lemma checkYouTube_keys:
  "checkYouTube ys w = (Inr es, w') \<Longrightarrow> list_all (\<lambda>e. map fst e = youtubeEntryKeys) es"
  by (auto simp: checkYouTube_def split: if_splits sum.splits dest: youtubeLoop_keys)


text \<open>
  C6. Each adapter builds, for every live channel it reports, an object with the key list
  of its platform: \<^verbatim>\<open>user_id, user_login, display_name, title, game, viewers, started_at,
  uptime, url\<close> for Twitch, \<^verbatim>\<open>id, slug, title, game, viewers, started_at, uptime, url\<close>
  for Kick, \<^verbatim>\<open>channelId, title, url, started_at, duration\<close> for YouTube. No entry has a
  \<^verbatim>\<open>platformKey\<close> field: \<^verbatim>\<open>checkLiveChannels\<close> derives the key from the entry, as
  \<^verbatim>\<open>twitch-\<close> and the stream's \<^verbatim>\<open>user_id\<close>, \<^verbatim>\<open>kick-\<close> and the channel's
  \<^verbatim>\<open>broadcaster_user_id\<close>, \<^verbatim>\<open>yt-\<close> and the configured channel id.
\<close>

theorem adapter_entry_shapes:
  "(checkTwitch n ts w = Some (Inr es, w') \<longrightarrow> list_all (\<lambda>e. map fst e = twitchEntryKeys) es)
   \<and> (checkKick n ks w = Some (Inr es, w') \<longrightarrow> list_all (\<lambda>e. map fst e = kickEntryKeys) es)
   \<and> (checkYouTube ys w = (Inr es, w') \<longrightarrow> list_all (\<lambda>e. map fst e = youtubeEntryKeys) es)
   \<and> (twitchEntry c s = Inr e \<longrightarrow> twitchKey e = ''twitch-'' @ toStr (getPropD s ''user_id''))
   \<and> kickKey (kickEntry c ch) = ''kick-'' @ toStr (getPropD ch ''broadcaster_user_id'')
   \<and> (youtubeEntry c channelId j = Inr (Some e) \<longrightarrow> youtubeKey e = ''yt-'' @ toStr channelId)"
proof -
  have a: "twitchEntry c s = Inr e \<longrightarrow> twitchKey e = ''twitch-'' @ toStr (getPropD s ''user_id'')"
    by (auto simp: twitchEntry_def twitchKey_def field_def split: if_splits)
  have b: "kickKey (kickEntry c ch) = ''kick-'' @ toStr (getPropD ch ''broadcaster_user_id'')"
    by (simp add: kickEntry_def kickKey_def field_def)
  have d: "youtubeEntry c channelId j = Inr (Some e) \<longrightarrow> youtubeKey e = ''yt-'' @ toStr channelId"
    by (auto simp: youtubeEntry_def youtubeKey_def field_def bindE_def Let_def
        split: sum.splits if_splits)
  show ?thesis
    using a b d checkTwitch_keys[of n ts w es w'] checkKick_keys[of n ks w es w']
      checkYouTube_keys[of ys w es w']
    by blast
qed

theorem adapter_entry_shapes_witness:
  "list_all (\<lambda>e. map fst e = twitchEntryKeys) [sampleTwitchEntry]
   \<and> list_all (\<lambda>e. map fst e = kickEntryKeys) [sampleKickEntry]
   \<and> list_all (\<lambda>e. map fst e = youtubeEntryKeys) [sampleYouTubeEntry]
   \<and> twitchKey sampleTwitchEntry = ''twitch-42''
   \<and> kickKey sampleKickEntry = ''kick-7''
   \<and> youtubeKey sampleYouTubeEntry = ''yt-UC1''"
proof -
  let ?w = "sampleWorld (sampleServer 0)"
  obtain w1 where t: "checkTwitch 1 sampleTwitch ?w = Some (Inr [sampleTwitchEntry], w1)"
    using sample_twitch_run by (cases "checkTwitch 1 sampleTwitch ?w") auto
  obtain w2 where k: "checkKick 1 sampleKick ?w = Some (Inr [sampleKickEntry], w2)"
    using sample_kick_run by (cases "checkKick 1 sampleKick ?w") auto
  obtain w3 where y: "checkYouTube sampleYouTube ?w = (Inr [sampleYouTubeEntry], w3)"
    using sample_youtube_run by (cases "checkYouTube sampleYouTube ?w") auto
  have s: "twitchEntry sampleClock
      (Obj [(''user_id'', Str ''42''), (''user_login'', Str ''alice''),
            (''user_name'', Str ''Alice''), (''title'', Str ''Speedrun''),
            (''game_name'', Str ''Chess''), (''viewer_count'', Num 12),
            (''started_at'', Str ''2024-01-01T00:00:00Z'')]) = Inr sampleTwitchEntry"
    by code_simp
  have ke: "kickEntry sampleClock (Obj [(''broadcaster_user_id'', Num 7), (''slug'', Str ''bob''),
                               (''stream_title'', Str ''Cooking''),
                               (''category'', Obj [(''name'', Str ''IRL'')]),
                               (''stream'', Obj [(''is_live'', Bool True),
                                                 (''viewer_count'', Num 3),
                                                 (''start_time'', Str ''2024-01-01T02:00:00Z'')])])
       = sampleKickEntry"
    by code_simp
  have ye: "youtubeEntry sampleClock (Str ''UC1'') youtubeBody = Inr (Some sampleYouTubeEntry)"
    by code_simp
  have n7: "toStr (Num 7) = ''7''" by code_simp
  show ?thesis
    using adapter_entry_shapes[where n=1 and ts=sampleTwitch and w="?w" and es="[sampleTwitchEntry]"
        and w'=w1 and c=sampleClock and e=sampleTwitchEntry
        and s="Obj [(''user_id'', Str ''42''), (''user_login'', Str ''alice''),
            (''user_name'', Str ''Alice''), (''title'', Str ''Speedrun''),
            (''game_name'', Str ''Chess''), (''viewer_count'', Num 12),
            (''started_at'', Str ''2024-01-01T00:00:00Z'')]"] t
      adapter_entry_shapes[where n=1 and ks=sampleKick and w="?w" and es="[sampleKickEntry]"
        and w'=w2 and c=sampleClock
        and ch="Obj [(''broadcaster_user_id'', Num 7), (''slug'', Str ''bob''),
                               (''stream_title'', Str ''Cooking''),
                               (''category'', Obj [(''name'', Str ''IRL'')]),
                               (''stream'', Obj [(''is_live'', Bool True),
                                                 (''viewer_count'', Num 3),
                                                 (''start_time'', Str ''2024-01-01T02:00:00Z'')])]"] k
      adapter_entry_shapes[where ys=sampleYouTube and w="?w" and es="[sampleYouTubeEntry]"
        and w'=w3 and c=sampleClock and e=sampleYouTubeEntry and channelId="Str ''UC1''"
        and j=youtubeBody] y s ke ye n7
    by (simp add: getPropD_def field_def)
qed

text \<open>
  The entry \<^verbatim>\<open>checkTwitch\<close> returns in the sample world does not have the LiveEntry
  shape: it has no \<^verbatim>\<open>platformKey\<close>, and its \<^verbatim>\<open>user_id\<close> is not a LiveEntry key.
\<close>

theorem adapters_common_shape_counterexample:
  "map_option fst (checkTwitch 1 sampleTwitch (sampleWorld (sampleServer 0)))
     = Some (Inr [sampleTwitchEntry])
   \<and> \<not> hasLiveEntryShape sampleTwitchEntry
   \<and> ''platformKey'' \<notin> fst ` set sampleTwitchEntry"
proof -
  have "''user_id'' \<in> set (map fst sampleTwitchEntry)"
    by (simp add: sampleTwitchEntry_def)
  moreover have "''user_id'' \<notin> set liveEntryKeys"
    by (simp add: liveEntryKeys_def)
  ultimately have "\<not> hasLiveEntryShape sampleTwitchEntry"
    unfolding hasLiveEntryShape_def by blast
  moreover have "''platformKey'' \<notin> fst ` set sampleTwitchEntry"
    by (simp add: sampleTwitchEntry_def)
  ultimately show ?thesis using sample_twitch_run by simp
qed

end
